theory Spec2Isabelle
  imports Complex_Main "HOL-Library.Sublist"
begin

section \<open>Strings as the service sees them\<close>

text \<open>
  The service is \<^verbatim>\<open>server/services/universalExpansion.ts\<close>. A JavaScript string is a
  sequence of UTF-16 code units; the model uses \<^typ>\<open>string\<close>, a list of 8-bit
  characters, read as the code units \<open>0..255\<close> (the Latin-1 range). The three characters
  beyond that range that the source's character classes name (the bullet, the en dash and
  the em dash) therefore never occur in a modelled input and are left out of the classes.
  On the Latin-1 range the characters that \<^verbatim>\<open>\s\<close> and \<^verbatim>\<open>trim()\<close> treat
  as white space are TAB, LF, VT, FF, CR, SPACE and NBSP.
\<close>

definition is_space :: "char \<Rightarrow> bool" where
  "is_space c \<longleftrightarrow> c \<in> set [CHR 0x09, CHR 0x0A, CHR 0x0B, CHR 0x0C, CHR 0x0D, CHR 0x20, CHR 0xA0]"

definition is_digit :: "char \<Rightarrow> bool" where
  "is_digit c \<longleftrightarrow> c \<in> set ''0123456789''"

definition is_upper :: "char \<Rightarrow> bool" where
  "is_upper c \<longleftrightarrow> c \<in> set ''ABCDEFGHIJKLMNOPQRSTUVWXYZ''"

definition is_lower :: "char \<Rightarrow> bool" where
  "is_lower c \<longleftrightarrow> c \<in> set ''abcdefghijklmnopqrstuvwxyz''"

definition is_alpha :: "char \<Rightarrow> bool" where
  "is_alpha c \<longleftrightarrow> is_upper c \<or> is_lower c"

definition is_word :: "char \<Rightarrow> bool" where
  "is_word c \<longleftrightarrow> is_alpha c \<or> is_digit c \<or> c = CHR ''_''"

definition is_line_end :: "char \<Rightarrow> bool" where
  "is_line_end c \<longleftrightarrow> c = CHR 0x0A \<or> c = CHR 0x0D"

definition ascii_upper :: "char \<Rightarrow> char" where
  "ascii_upper c =
     (case map_of (zip ''abcdefghijklmnopqrstuvwxyz'' ''ABCDEFGHIJKLMNOPQRSTUVWXYZ'') c of
        Some u \<Rightarrow> u | None \<Rightarrow> c)"

definition ascii_lower :: "char \<Rightarrow> char" where
  "ascii_lower c =
     (case map_of (zip ''ABCDEFGHIJKLMNOPQRSTUVWXYZ'' ''abcdefghijklmnopqrstuvwxyz'') c of
        Some u \<Rightarrow> u | None \<Rightarrow> c)"

text \<open>
  \<^verbatim>\<open>toUpperCase()\<close> on the Latin-1 range: the ASCII and the accented letters go to
  their capitals, the sharp s becomes \<open>SS\<close>. The micro sign and the y with diaeresis
  have capitals beyond the range, each the image of no other Latin-1 character; they stand
  for their own capitals here, which keeps every comparison of upper-cased text as it is.
\<close>

definition upper_char :: "char \<Rightarrow> string" where
  "upper_char c =
     (if is_lower c then [ascii_upper c]
      else if c = CHR 0xDF then ''SS''
      else if 224 \<le> (of_char c :: nat) \<and> (of_char c :: nat) \<le> 254 \<and> (of_char c :: nat) \<noteq> 247
        then [char_of ((of_char c :: nat) - 32)]
      else [c])"

definition toUpperCase :: "string \<Rightarrow> string" where
  "toUpperCase s = concat (map upper_char s)"

definition trim :: "string \<Rightarrow> string" where
  "trim s = rev (dropWhile is_space (rev (dropWhile is_space s)))"

text \<open>\<^verbatim>\<open>a.includes(b)\<close> and \<^verbatim>\<open>a.startsWith(b)\<close>.\<close>

fun str_includes :: "string \<Rightarrow> string \<Rightarrow> bool" where
  "str_includes [] b = (b = [])"
| "str_includes (x # xs) b = (prefix b (x # xs) \<or> str_includes xs b)"

definition startsWith :: "string \<Rightarrow> string \<Rightarrow> bool" where
  "startsWith a b = prefix b a"

text \<open>\<^verbatim>\<open>a.substring(0, n)\<close> for \<open>0 \<le> n\<close>.\<close>

definition substring0 :: "string \<Rightarrow> nat \<Rightarrow> string" where
  "substring0 a n = take n a"

text \<open>
  \<^verbatim>\<open>s.split(/\s+/)\<close>: the pieces between maximal runs of white space; the empty
  string gives one empty piece, a leading or trailing run gives an empty piece at that end.
\<close>

function split_ws :: "string \<Rightarrow> string list" where
  "split_ws s =
     (case dropWhile (\<lambda>c. \<not> is_space c) s of
        [] \<Rightarrow> [s]
      | r # rs \<Rightarrow> takeWhile (\<lambda>c. \<not> is_space c) s # split_ws (dropWhile is_space rs))"
  by pat_completeness auto
termination
proof (relation "measure length", goal_cases)
  case 1
  show ?case by simp
next
  case (2 s r rs)
  have "length (dropWhile is_space rs) \<le> length rs"
    by (rule length_dropWhile_le)
  moreover have "length (r # rs) \<le> length s"
    unfolding 2 [symmetric] by (rule length_dropWhile_le)
  ultimately show ?case by simp
qed

declare split_ws.simps [simp del]

text \<open>\<^verbatim>\<open>text.trim().split(/\s+/).filter(w => w).length\<close>, the word count of
  \<^verbatim>\<open>generateSection\<close>; and \<^verbatim>\<open>text.trim().split(/\s+/).length\<close>, the one of
  \<^verbatim>\<open>universalExpand\<close>, which counts one word in an empty text.\<close>

definition word_count :: "string \<Rightarrow> nat" where
  "word_count s = length (filter (\<lambda>w. w \<noteq> []) (split_ws (trim s)))"

definition split_count :: "string \<Rightarrow> nat" where
  "split_count s = length (split_ws (trim s))"

text \<open>\<^verbatim>\<open>s.split('\n')\<close> and \<^verbatim>\<open>lines.join('\n')\<close>.\<close>

fun split_lines :: "string \<Rightarrow> string list" where
  "split_lines [] = [[]]"
| "split_lines (c # cs) =
     (if c = CHR 0x0A then [] # split_lines cs
      else (case split_lines cs of l # ls \<Rightarrow> (c # l) # ls | [] \<Rightarrow> [[c]]))"

fun join_lines :: "string list \<Rightarrow> string" where
  "join_lines [] = []"
| "join_lines [l] = l"
| "join_lines (l # ls) = l @ [CHR 0x0A] @ join_lines ls"

text \<open>A number of the program: an integer, or \<^verbatim>\<open>NaN\<close>. Every number the modelled
  code stores is the result of \<^verbatim>\<open>Math.round\<close> or \<^verbatim>\<open>parseInt\<close>.\<close>

datatype number = NaN | Num int

text \<open>\<^verbatim>\<open>Math.round\<close> rounds to the nearest integer, a tie upwards. The products and
  quotients it is applied to are taken in exact rational arithmetic.\<close>

definition Math_round :: "rat \<Rightarrow> int" where
  "Math_round x = \<lfloor>x + 1 / 2\<rfloor>"

definition digit_val :: "char \<Rightarrow> nat" where
  "digit_val c = (of_char c :: nat) - 48"

definition dec_val :: "string \<Rightarrow> nat" where
  "dec_val ds = foldl (\<lambda>a c. 10 * a + digit_val c) 0 ds"

text \<open>
  \<^verbatim>\<open>parseInt\<close> and \<^verbatim>\<open>parseFloat\<close> on the texts the program gives them, which
  hold decimal digits, full stops and the letter k only (no sign, exponent or white space):
  the longest leading numeral, \<^verbatim>\<open>NaN\<close> (here \<open>None\<close>) when it has no digit.
\<close>

definition parseInt :: "string \<Rightarrow> number" where
  "parseInt s =
     (let ds = takeWhile is_digit s in if ds = [] then NaN else Num (int (dec_val ds)))"

definition parseFloat :: "string \<Rightarrow> rat option" where
  "parseFloat s =
     (let ip = takeWhile is_digit s;
          fp = (case dropWhile is_digit s of
                  c # r \<Rightarrow> if c = CHR ''.'' then takeWhile is_digit r else []
                | [] \<Rightarrow> [])
      in if ip = [] \<and> fp = [] then None
         else Some (of_nat (dec_val ip) + of_nat (dec_val fp) / 10 ^ length fp))"

text \<open>\<^verbatim>\<open>n.toString()\<close> for an integer.\<close>

fun show_nat_aux :: "nat \<Rightarrow> nat \<Rightarrow> string \<Rightarrow> string" where
  "show_nat_aux 0 n acc = acc"
| "show_nat_aux (Suc fuel) n acc =
     (let acc' = char_of (48 + n mod 10) # acc
      in if n < 10 then acc' else show_nat_aux fuel (n div 10) acc')"

definition show_nat :: "nat \<Rightarrow> string" where
  "show_nat n = show_nat_aux (Suc n) n []"

definition show_int :: "int \<Rightarrow> string" where
  "show_int i = (if i < 0 then CHR ''-'' # show_nat (nat (- i)) else show_nat (nat i))"

section \<open>Regular expressions as the JavaScript engine runs them\<close>

text \<open>
  A pattern is matched by backtracking: the alternatives are tried in a fixed order and
  the first complete match is the result. \<open>matches r st\<close> lists every way \<open>r\<close> can
  match at the state \<open>st\<close>, in that order, so its head is what the engine returns.
  A state holds the character before the current position (for \<^verbatim>\<open>^\<close> and
  \<^verbatim>\<open>\b\<close>), the rest of the input, and the capture groups written so far (the most
  recent first).
\<close>

type_synonym captures = "(nat \<times> string) list"
type_synonym mstate = "char option \<times> string \<times> captures"

definition prev_of :: "mstate \<Rightarrow> char option" where
  "prev_of st = fst st"

definition rest_of :: "mstate \<Rightarrow> string" where
  "rest_of st = fst (snd st)"

definition caps_of :: "mstate \<Rightarrow> captures" where
  "caps_of st = snd (snd st)"

datatype regex =
    Eps
  | Chr "char \<Rightarrow> bool"
  | Seq regex regex
  | Alt regex regex
  | Star regex
  | StarLazy regex
  | Opt regex
  | Group nat regex
  | Bol
  | BolM
  | Eol
  | WordB

text \<open>
  \<^verbatim>\<open>r*\<close> and \<^verbatim>\<open>r*?\<close>. An iteration that consumes nothing is rejected, as
  the engine does, so every iteration consumes a character; the second argument bounds the
  iterations by one per remaining character.
\<close>

primrec rep_greedy :: "(mstate \<Rightarrow> mstate list) \<Rightarrow> string \<Rightarrow> mstate \<Rightarrow> mstate list" where
  "rep_greedy f [] st = [st]"
| "rep_greedy f (x # fuel) st =
     concat (map (\<lambda>st'. if rest_of st' \<noteq> rest_of st then rep_greedy f fuel st' else [])
                 (f st)) @ [st]"

primrec rep_lazy :: "(mstate \<Rightarrow> mstate list) \<Rightarrow> string \<Rightarrow> mstate \<Rightarrow> mstate list" where
  "rep_lazy f [] st = [st]"
| "rep_lazy f (x # fuel) st =
     st # concat (map (\<lambda>st'. if rest_of st' \<noteq> rest_of st then rep_lazy f fuel st' else [])
                      (f st))"

primrec matches :: "regex \<Rightarrow> mstate \<Rightarrow> mstate list" where
  "matches Eps st = [st]"
| "matches (Chr P) st =
     (case rest_of st of
        [] \<Rightarrow> []
      | c # cs \<Rightarrow> if P c then [(Some c, cs, caps_of st)] else [])"
| "matches (Seq a b) st = concat (map (matches b) (matches a st))"
| "matches (Alt a b) st = matches a st @ matches b st"
| "matches (Star a) st = rep_greedy (matches a) (rest_of st) st"
| "matches (StarLazy a) st = rep_lazy (matches a) (rest_of st) st"
| "matches (Opt a) st = filter (\<lambda>st'. rest_of st' \<noteq> rest_of st) (matches a st) @ [st]"
| "matches (Group k a) st =
     map (\<lambda>st'. (prev_of st', rest_of st',
                  (k, take (length (rest_of st) - length (rest_of st')) (rest_of st)) # caps_of st'))
         (matches a st)"
| "matches Bol st = (if prev_of st = None then [st] else [])"
| "matches BolM st =
     (case prev_of st of None \<Rightarrow> [st] | Some c \<Rightarrow> if is_line_end c then [st] else [])"
| "matches Eol st = (if rest_of st = [] then [st] else [])"
| "matches WordB st =
     (let a = (case prev_of st of None \<Rightarrow> False | Some c \<Rightarrow> is_word c);
          b = (case rest_of st of [] \<Rightarrow> False | c # cs \<Rightarrow> is_word c)
      in if a \<noteq> b then [st] else [])"

text \<open>Pattern text: a character under the \<^verbatim>\<open>i\<close> flag, a literal, a sequence, a choice,
  \<^verbatim>\<open>r+\<close>, \<^verbatim>\<open>r+?\<close>, \<^verbatim>\<open>\s*\<close>.\<close>

definition ci :: "char \<Rightarrow> regex" where
  "ci p = Chr (\<lambda>c. c = ascii_upper p \<or> c = ascii_lower p)"

definition lit :: "string \<Rightarrow> regex" where
  "lit s = foldr (\<lambda>p r. Seq (ci p) r) s Eps"

definition seqs :: "regex list \<Rightarrow> regex" where
  "seqs rs = foldr Seq rs Eps"

definition alts :: "regex list \<Rightarrow> regex" where
  "alts rs = foldr Alt (butlast rs) (last rs)"

definition plus_re :: "regex \<Rightarrow> regex" where
  "plus_re r = Seq r (Star r)"

definition plus_lazy :: "regex \<Rightarrow> regex" where
  "plus_lazy r = Seq r (StarLazy r)"

definition wss :: regex where
  "wss = Star (Chr is_space)"

text \<open>
  \<^verbatim>\<open>text.match(r)\<close> for a pattern without the \<^verbatim>\<open>g\<close> flag, and one call of
  \<^verbatim>\<open>r.exec(text)\<close> from \<^verbatim>\<open>lastIndex\<close>: the leftmost position at which the pattern
  matches, with the first match there. The result is the text from that position on and
  the final state.
\<close>

fun search_from :: "regex \<Rightarrow> char option \<Rightarrow> string \<Rightarrow> (string \<times> mstate) option" where
  "search_from r prev [] =
     (case matches r (prev, [], []) of [] \<Rightarrow> None | st # _ \<Rightarrow> Some ([], st))"
| "search_from r prev (c # cs) =
     (case matches r (prev, c # cs, []) of
        [] \<Rightarrow> search_from r (Some c) cs
      | st # _ \<Rightarrow> Some (c # cs, st))"

definition regex_test :: "regex \<Rightarrow> string \<Rightarrow> bool" where
  "regex_test r s \<longleftrightarrow> search_from r None s \<noteq> None"

text \<open>The text of capture group \<open>k\<close> of a match (the empty text stands for a group that
  took no part, which no use below depends on).\<close>

definition group_text :: "mstate \<Rightarrow> nat \<Rightarrow> string" where
  "group_text st k = (case map_of (caps_of st) k of Some t \<Rightarrow> t | None \<Rightarrow> [])"

text \<open>
  The loop \<^verbatim>\<open>while ((match = pattern.exec(text)) !== null)\<close> over a pattern with the
  \<^verbatim>\<open>g\<close> flag. Each call searches from where the last match ended. A match that ends
  where the search began leaves \<^verbatim>\<open>lastIndex\<close> unchanged, and the loop then never
  ends: that is the result \<open>None\<close>.
\<close>

function exec_all :: "regex \<Rightarrow> char option \<Rightarrow> string \<Rightarrow> mstate list option" where
  "exec_all r prev t =
     (case search_from r prev t of
        None \<Rightarrow> Some []
      | Some (start, st) \<Rightarrow>
          if length (rest_of st) < length t
          then (case exec_all r (prev_of st) (rest_of st) of
                  None \<Rightarrow> None
                | Some ms \<Rightarrow> Some (st # ms))
          else None)"
  by pat_completeness auto
termination
  by (relation "measure (\<lambda>(r, prev, t). length t)") auto

declare exec_all.simps [simp del]

text \<open>A pattern consumes when each of its matches takes at least one character; this
  is read off its syntax.\<close>

fun consumes :: "regex \<Rightarrow> bool" where
  "consumes (Chr P) = True"
| "consumes (Seq a b) = (consumes a \<or> consumes b)"
| "consumes (Alt a b) = (consumes a \<and> consumes b)"
| "consumes (Group k a) = consumes a"
| "consumes r = False"



section \<open>parseExpansionInstructions: the patterns\<close>

text \<open>The character classes \<^verbatim>\<open>[:\-...]\<close>, \<^verbatim>\<open>[-*...]\<close>, \<^verbatim>\<open>[\d,.]\<close>,
  \<^verbatim>\<open>[\d,]\<close>, \<^verbatim>\<open>[\d.]\<close>, \<^verbatim>\<open>[IVXLCDM]\<close> under the \<^verbatim>\<open>i\<close> flag,
  \<^verbatim>\<open>[^\n(]\<close>, \<^verbatim>\<open>[^\n]\<close>, \<^verbatim>\<open>[A-Za-z\s]\<close> and \<^verbatim>\<open>[A-Z\s:]\<close> under
  the \<^verbatim>\<open>i\<close> flag.\<close>

definition sep_char :: "char \<Rightarrow> bool" where
  "sep_char c \<longleftrightarrow> c = CHR '':'' \<or> c = CHR ''-''"

definition bullet_char :: "char \<Rightarrow> bool" where
  "bullet_char c \<longleftrightarrow> c = CHR ''-'' \<or> c = CHR ''*''"

definition count_char :: "char \<Rightarrow> bool" where
  "count_char c \<longleftrightarrow> is_digit c \<or> c = CHR '','' \<or> c = CHR ''.''"

definition digit_or_comma :: "char \<Rightarrow> bool" where
  "digit_or_comma c \<longleftrightarrow> is_digit c \<or> c = CHR '',''"

definition digit_or_dot :: "char \<Rightarrow> bool" where
  "digit_or_dot c \<longleftrightarrow> is_digit c \<or> c = CHR ''.''"

definition roman_char :: "char \<Rightarrow> bool" where
  "roman_char c \<longleftrightarrow> c \<in> set ''IVXLCDMivxlcdm''"

definition not_nl_paren :: "char \<Rightarrow> bool" where
  "not_nl_paren c \<longleftrightarrow> c \<noteq> CHR 0x0A \<and> c \<noteq> CHR ''(''"

definition not_nl :: "char \<Rightarrow> bool" where
  "not_nl c \<longleftrightarrow> c \<noteq> CHR 0x0A"

definition alpha_space :: "char \<Rightarrow> bool" where
  "alpha_space c \<longleftrightarrow> is_alpha c \<or> is_space c"

definition alpha_space_colon :: "char \<Rightarrow> bool" where
  "alpha_space_colon c \<longleftrightarrow> is_alpha c \<or> is_space c \<or> c = CHR '':''"

text \<open>\<^verbatim>\<open>([\d,.]+k?)\<close> as group \<open>k\<close>; \<^verbatim>\<open>\s*\(\s*([\d,.]+k?)\s*words?\s*\)\<close>;
  \<^verbatim>\<open>\s*[:\-...]\s*([\d,.]+k?)\s*words?\<close>.\<close>

definition count_text :: "nat \<Rightarrow> regex" where
  "count_text k = Group k (Seq (plus_re (Chr count_char)) (Opt (ci CHR ''k'')))"

definition words_paren :: "nat \<Rightarrow> regex" where
  "words_paren k =
     seqs [wss, ci CHR ''('', wss, count_text k, wss, lit ''word'', Opt (ci CHR ''s''), wss,
           ci CHR '')'']"

definition words_sep :: "nat \<Rightarrow> regex" where
  "words_sep k = seqs [wss, Chr sep_char, wss, count_text k, wss, lit ''word'', Opt (ci CHR ''s'')]"

definition chapter_or_section :: regex where
  "chapter_or_section = Alt (lit ''CHAPTER'') (lit ''SECTION'')"

definition chapter_word :: regex where
  "chapter_word =
     alts [lit ''CHAPTER'', lit ''SECTION'', Seq (lit ''Ch'') (Opt (ci CHR ''.'')),
           Seq (lit ''Sec'') (Opt (ci CHR ''.''))]"

definition digits1 :: regex where
  "digits1 = plus_re (Chr is_digit)"

definition romanChapterPatterns :: "regex list" where
  "romanChapterPatterns =
    [seqs [Opt (Chr bullet_char), wss, chapter_or_section, wss, Group 1 (plus_re (Chr roman_char)),
           wss, Chr sep_char, wss,
           Group 2 (Seq (Chr is_alpha) (StarLazy (Chr not_nl_paren))), words_paren 3],
     seqs [Opt (Chr bullet_char), wss, chapter_or_section, wss, Group 1 (plus_re (Chr roman_char)),
           wss, Chr sep_char, wss,
           Group 2 (Seq (Chr is_alpha) (plus_lazy (Chr alpha_space))), words_sep 3]]"

definition chapterPatterns :: "regex list" where
  "chapterPatterns =
    [seqs [Opt (Chr bullet_char), wss, chapter_word, wss, Group 1 digits1, wss,
           Opt (Chr sep_char), wss,
           Group 2 (Seq (Chr is_alpha) (StarLazy (Chr not_nl_paren))), words_paren 3],
     seqs [chapter_or_section, wss, Group 1 digits1, wss, Chr sep_char, wss,
           Group 2 (plus_lazy (Chr not_nl_paren)), words_paren 3],
     seqs [Opt (Chr bullet_char), wss, chapter_word, wss, Group 1 digits1, wss,
           Chr sep_char, wss,
           Group 2 (Seq (Chr is_alpha) (plus_lazy (Chr alpha_space))), words_sep 3],
     seqs [chapter_or_section, wss, Group 1 digits1, wss, Chr sep_char, wss,
           Group 2 (plus_lazy (Chr not_nl)), words_sep 3]]"

definition section_suffix :: regex where
  "section_suffix =
     alts [lit ''REVIEW'', lit ''DUCTION'', lit ''CLUSION'', lit ''TRACT'', lit ''THESIS'',
           lit ''OLOGY'', lit ''ICATION'', lit ''YSIS'', lit ''SSION'']"

definition section_title :: regex where
  "section_title = seqs [Chr is_alpha, plus_re (Chr alpha_space), Opt section_suffix]"

definition sectionPatterns :: "regex list" where
  "sectionPatterns =
    [seqs [Opt (Chr bullet_char), wss, Group 1 section_title, words_paren 2],
     seqs [BolM, wss, Group 1 (Seq (Chr is_alpha) (plus_re (Chr alpha_space_colon))), words_paren 2],
     seqs [Opt (Chr bullet_char), wss, Group 1 section_title, words_sep 2],
     seqs [BolM, wss, Group 1 (Seq (Chr is_alpha) (plus_re (Chr alpha_space))), words_sep 2]]"

definition abbreviationPattern :: regex where
  "abbreviationPattern =
     seqs [Opt (Chr bullet_char), wss,
           Group 1 (alts [lit ''intro'',
                          seqs [lit ''lit'', Opt (ci CHR ''.''), wss, lit ''review''],
                          seqs [lit ''literature'', wss, lit ''rev''],
                          lit ''concl'', lit ''meth'', lit ''discuss'', lit ''results'',
                          Seq (lit ''abs'') (Opt (lit ''tract''))]),
           words_paren 2]"

definition chapterNoWordPattern :: regex where
  "chapterNoWordPattern =
     seqs [Opt (Chr bullet_char), wss, Alt (lit ''CHAPTER'') (Seq (lit ''Ch'') (Opt (ci CHR ''.''))),
           wss, Group 1 digits1, wss, Chr sep_char, wss,
           Group 2 (plus_lazy (Chr not_nl_paren)),
           Alt (Chr (\<lambda>c. c = CHR 0x0A)) Eol]"

text \<open>The word-count patterns. \<^verbatim>\<open>([\d,]+(?:\.\d+)?)\<close> is group 1;
  \<^verbatim>\<open>\s*(?:K)?\s*WORDS?\<close> and \<^verbatim>\<open>\s*(?:K)?\s*WORD\<close> follow it.\<close>

definition number_text :: regex where
  "number_text =
     Group 1 (Seq (plus_re (Chr digit_or_comma)) (Opt (Seq (ci CHR ''.'') (plus_re (Chr is_digit)))))"

definition k_words :: regex where
  "k_words = seqs [wss, Opt (ci CHR ''K''), wss, lit ''WORD'', Opt (ci CHR ''S'')]"

definition k_word :: regex where
  "k_word = seqs [wss, Opt (ci CHR ''K''), wss, lit ''WORD'']"

definition a_opt :: regex where
  "a_opt = Opt (Seq (ci CHR ''A'') wss)"

definition expand_to_pattern :: regex where
  "expand_to_pattern = seqs [lit ''EXPAND'', wss, Opt (lit ''TO''), wss, number_text, k_words]"

definition wordCountPatterns :: "regex list" where
  "wordCountPatterns =
    [expand_to_pattern,
     seqs [number_text, k_words, wss,
           alts [lit ''THESIS'', lit ''DISSERTATION'', lit ''ESSAY'', lit ''DOCUMENT'', lit ''LENGTH'',
                 lit ''TREATISE'', lit ''PAPER'', lit ''SCHOLARLY'']],
     seqs [alts [lit ''THESIS'', lit ''DISSERTATION'', lit ''ESSAY'', lit ''DOCUMENT'',
                 lit ''TREATISE'', lit ''PAPER''],
           wss, Opt (lit ''OF''), wss, number_text, k_words],
     seqs [lit ''TARGET'', wss, Opt (lit ''OF''), wss, number_text, k_words],
     seqs [number_text, k_words, wss, lit ''TOTAL''],
     seqs [lit ''TURN'', wss, Opt (Seq (lit ''THIS'') wss), lit ''INTO'', wss, a_opt, number_text, k_word],
     seqs [lit ''WRITE'', wss, a_opt, number_text, k_word],
     seqs [lit ''GENERATE'', wss, a_opt, number_text, k_word],
     seqs [lit ''PRODUCE'', wss, a_opt, number_text, k_word],
     seqs [lit ''CREATE'', wss, a_opt, number_text, k_word]]"

text \<open>\<^verbatim>\<open>/K\s*WORDS?/i\<close>, tested on the matched text, and \<^verbatim>\<open>/([\d.]+)\s*k/i\<close> of
  \<^verbatim>\<open>parseWordCountFromString\<close>.\<close>

definition k_format :: regex where
  "k_format = seqs [ci CHR ''K'', wss, lit ''WORD'', Opt (ci CHR ''S'')]"

definition k_shorthand :: regex where
  "k_shorthand = seqs [Group 1 (plus_re (Chr digit_or_dot)), wss, ci CHR ''k'']"

section \<open>parseExpansionInstructions: the parser\<close>

text \<open>
  Of the parsed value the model keeps the target word count (\<open>None\<close> is \<^verbatim>\<open>null\<close>)
  and the structure; the citation, style, entity, dialogue and constraint fields are
  computed independently of these two and no property below reads them.
\<close>

record section_spec =
  name :: string
  wordCount :: number

record ParsedInstructions =
  targetWordCount :: "number option"
  "structure" :: "section_spec list"

definition parseWordCountFromString :: "string \<Rightarrow> number" where
  "parseWordCountFromString str =
     (case search_from k_shorthand None str of
        Some (start, kMatch) \<Rightarrow>
          (case parseFloat (group_text kMatch 1) of
             None \<Rightarrow> NaN
           | Some v \<Rightarrow> Num (Math_round (v * 1000)))
      | None \<Rightarrow> parseInt (filter (\<lambda>c. c \<noteq> CHR '','') str))"

text \<open>The first pattern of the list that matches, with its match; group 0 is the matched
  text \<^verbatim>\<open>match[0]\<close>.\<close>

fun first_match :: "regex list \<Rightarrow> string \<Rightarrow> mstate option" where
  "first_match [] s = None"
| "first_match (r # rs) s =
     (case search_from (Group 0 r) None s of
        Some (start, st) \<Rightarrow> Some st
      | None \<Rightarrow> first_match rs s)"

definition count_of_match :: "string \<Rightarrow> mstate \<Rightarrow> number" where
  "count_of_match originalText st =
     (case parseFloat (filter (\<lambda>c. c \<noteq> CHR '','') (group_text st 1)) of
        None \<Rightarrow> NaN
      | Some count0 \<Rightarrow>
          (let count1 = (if regex_test k_format (group_text st 0) then count0 * 1000 else count0);
               count2 = (if count1 < 500 \<and> str_includes (toUpperCase originalText) ''THESIS''
                         then count1 * 1000 else count1)
           in Num (Math_round count2)))"

definition parse_target :: "string \<Rightarrow> number option" where
  "parse_target originalText =
     map_option (count_of_match originalText) (first_match wordCountPatterns originalText)"

definition addSection :: "section_spec list \<Rightarrow> string \<Rightarrow> number \<Rightarrow> section_spec list" where
  "addSection sections nm wc =
     (let normalizedName = toUpperCase (trim nm)
      in if list_ex (\<lambda>s. str_includes (toUpperCase (name s))
                          (substring0 normalizedName (min 15 (length normalizedName)))) sections
         then sections
         else sections @ [\<lparr>name = trim nm, wordCount = wc\<rparr>])"

definition romanMap :: "char \<Rightarrow> int" where
  "romanMap c =
     (case map_of [(CHR ''I'', 1), (CHR ''V'', 5), (CHR ''X'', 10), (CHR ''L'', 50),
                   (CHR ''C'', 100), (CHR ''D'', 500), (CHR ''M'', 1000)] c of
        Some v \<Rightarrow> v | None \<Rightarrow> 0)"

fun roman_loop :: "int \<Rightarrow> string \<Rightarrow> int" where
  "roman_loop result [] = result"
| "roman_loop result [c] = result + romanMap c"
| "roman_loop result (c # d # cs) =
     (if romanMap c < romanMap d then roman_loop (result - romanMap c) (d # cs)
      else roman_loop (result + romanMap c) (d # cs))"

definition romanToArabic :: "string \<Rightarrow> string" where
  "romanToArabic roman = show_int (roman_loop 0 (toUpperCase roman))"

definition chapter_name :: "string \<Rightarrow> string \<Rightarrow> string" where
  "chapter_name chapterNum chapterTitle =
     (if chapterTitle = [] then ''CHAPTER '' @ chapterNum
      else ''CHAPTER '' @ chapterNum @ '': '' @ chapterTitle)"

definition add_roman :: "section_spec list \<Rightarrow> mstate \<Rightarrow> section_spec list" where
  "add_roman sections m =
     addSection sections
       (chapter_name (romanToArabic (group_text m 1)) (trim (group_text m 2)))
       (parseWordCountFromString (group_text m 3))"

definition add_chapter :: "section_spec list \<Rightarrow> mstate \<Rightarrow> section_spec list" where
  "add_chapter sections m =
     addSection sections
       (chapter_name (group_text m 1) (trim (group_text m 2)))
       (parseWordCountFromString (group_text m 3))"

definition add_named :: "section_spec list \<Rightarrow> mstate \<Rightarrow> section_spec list" where
  "add_named sections m =
     (let sectionName = trim (group_text m 1);
          wc = parseWordCountFromString (group_text m 2)
      in if str_includes (toUpperCase sectionName) ''CHAPTER'' then sections
         else addSection sections (toUpperCase sectionName) wc)"

definition abbreviationMap :: "(string \<times> string) list" where
  "abbreviationMap =
     [(''INTRO'', ''INTRODUCTION''), (''LIT REVIEW'', ''LITERATURE REVIEW''),
      (''LIT. REVIEW'', ''LITERATURE REVIEW''), (''LITERATURE REV'', ''LITERATURE REVIEW''),
      (''CONCL'', ''CONCLUSION''), (''METH'', ''METHODOLOGY''), (''DISCUSS'', ''DISCUSSION''),
      (''RESULTS'', ''RESULTS''), (''ABSTRACT'', ''ABSTRACT''), (''ABS'', ''ABSTRACT'')]"

text \<open>\<^verbatim>\<open>s.replace(/\s+/g, ' ')\<close>.\<close>

fun collapse_run :: "bool \<Rightarrow> string \<Rightarrow> string" where
  "collapse_run in_run [] = []"
| "collapse_run in_run (c # cs) =
     (if is_space c then (if in_run then collapse_run True cs else CHR '' '' # collapse_run True cs)
      else c # collapse_run False cs)"

definition collapse_ws :: "string \<Rightarrow> string" where
  "collapse_ws s = collapse_run False s"

definition add_abbreviation :: "section_spec list \<Rightarrow> mstate \<Rightarrow> section_spec list" where
  "add_abbreviation sections m =
     (let abbr = trim (collapse_ws (toUpperCase (group_text m 1)));
          fullName = (case map_of abbreviationMap abbr of Some n \<Rightarrow> n | None \<Rightarrow> abbr)
      in addSection sections fullName (parseWordCountFromString (group_text m 2)))"

definition add_chapterNoWord :: "section_spec list \<Rightarrow> mstate \<Rightarrow> section_spec list" where
  "add_chapterNoWord sections m =
     (let chapterNum = group_text m 1;
          chapterTitle = trim (group_text m 2);
          fullName = ''CHAPTER '' @ chapterNum @ '': '' @ chapterTitle
      in if list_ex (\<lambda>s. str_includes (toUpperCase (name s)) (''CHAPTER '' @ chapterNum)) sections
         then sections
         else addSection sections fullName (Num 0))"

text \<open>One \<^verbatim>\<open>for (const pattern of patterns)\<close> loop around the \<^verbatim>\<open>exec\<close> loop.\<close>

fun run_patterns ::
  "(section_spec list \<Rightarrow> mstate \<Rightarrow> section_spec list) \<Rightarrow> regex list \<Rightarrow> string
     \<Rightarrow> section_spec list \<Rightarrow> section_spec list option" where
  "run_patterns add [] s acc = Some acc"
| "run_patterns add (r # rs) s acc =
     (case exec_all r None s of
        None \<Rightarrow> None
      | Some ms \<Rightarrow> run_patterns add rs s (foldl add acc ms))"

definition parse_structure :: "string \<Rightarrow> section_spec list option" where
  "parse_structure originalText =
     Option.bind (run_patterns add_roman romanChapterPatterns originalText []) (\<lambda>s1.
     Option.bind (run_patterns add_chapter chapterPatterns originalText s1) (\<lambda>s2.
     Option.bind (run_patterns add_named sectionPatterns originalText s2) (\<lambda>s3.
     Option.bind (run_patterns add_abbreviation [abbreviationPattern] originalText s3) (\<lambda>s4.
     run_patterns add_chapterNoWord [chapterNoWordPattern] originalText s4))))"

text \<open>The body of \<^verbatim>\<open>parseExpansionInstructions\<close> after the cache check. \<open>None\<close>: one
  of its loops does not end.\<close>

definition run_matchers :: "string \<Rightarrow> ParsedInstructions option" where
  "run_matchers customInstructions =
     (if customInstructions = [] then Some \<lparr>targetWordCount = None, structure = []\<rparr>
      else map_option (\<lambda>s. \<lparr>targetWordCount = parse_target customInstructions, structure = s\<rparr>)
             (parse_structure customInstructions))"

section \<open>generateSection\<close>

text \<open>
  The provider is outside the program. One run of \<^verbatim>\<open>generateSection\<close> sends one
  request per attempt, so a provider is modelled by what it answers to the request of
  attempt \<open>n\<close>: a thrown transport error, or a response with its text and stop reason.
\<close>

datatype stop_reason = end_turn | max_tokens | stop_sequence | tool_use

record response =
  content :: string
  stop_reason :: stop_reason

datatype error = ProviderError | TypeError

type_synonym provider = "nat \<Rightarrow> error + response"

record section_state =
  accumulatedContent :: string
  currentWordCount :: nat
  continuationAttempts :: nat

definition maxContinuationAttempts :: nat where
  "maxContinuationAttempts = 20"

text \<open>
  The loop condition \<^verbatim>\<open>currentWordCount < targetWordCount * 0.95\<close>, for an integer
  target, written over the integers.
\<close>

definition below_target :: "nat \<Rightarrow> int \<Rightarrow> bool" where
  "below_target wc target \<longleftrightarrow> 100 * int wc < 95 * target"

text \<open>The body of the loop after the response has arrived. \<^verbatim>\<open>wasTruncated\<close> is
  computed, and read only by the logging and by the delay, which the model leaves out.\<close>

definition append_chunk :: "section_state \<Rightarrow> response \<Rightarrow> section_state" where
  "append_chunk st r =
     (let chunkContent = content r;
          wasTruncated = (stop_reason r = max_tokens);
          acc = (if continuationAttempts st = 0 then trim chunkContent
                 else accumulatedContent st @ [CHR 0x0A, CHR 0x0A] @ trim chunkContent)
      in \<lparr>accumulatedContent = acc,
          currentWordCount = word_count acc,
          continuationAttempts = continuationAttempts st + 1\<rparr>)"

function continuation_loop :: "provider \<Rightarrow> int \<Rightarrow> section_state \<Rightarrow> error + section_state" where
  "continuation_loop p target st =
     (if below_target (currentWordCount st) target
         \<and> continuationAttempts st < maxContinuationAttempts
      then (case p (continuationAttempts st) of
              Inl e \<Rightarrow> Inl e
            | Inr r \<Rightarrow> continuation_loop p target (append_chunk st r))
      else Inr st)"
  by pat_completeness auto
termination
  by (relation "measure (\<lambda>(p, target, st). maxContinuationAttempts - continuationAttempts st)")
     (auto simp: append_chunk_def Let_def)

declare continuation_loop.simps [simp del]

definition initial_section_state :: section_state where
  "initial_section_state =
     \<lparr>accumulatedContent = [], currentWordCount = 0, continuationAttempts = 0\<rparr>"

subsection \<open>stripSkeletonMetadata\<close>

text \<open>\<^verbatim>\<open>\*{0,2}\<close>, \<^verbatim>\<open>={2,}\<close>, and the eight metadata patterns.\<close>

definition stars02 :: regex where
  "stars02 = Opt (Seq (ci CHR ''*'') (Opt (ci CHR ''*'')))"

definition equals2 :: regex where
  "equals2 = Seq (ci CHR ''='') (Seq (ci CHR ''='') (Star (ci CHR ''='')))"

definition label_pattern :: "string \<Rightarrow> regex" where
  "label_pattern l = seqs [Bol, stars02, lit l, stars02, wss, ci CHR '':'']"

definition banner_pattern :: "string \<Rightarrow> regex" where
  "banner_pattern l = seqs [Bol, equals2, wss, lit l, wss, equals2, Eol]"

definition metadataPatterns :: "regex list" where
  "metadataPatterns =
    [label_pattern ''UNIQUE CONCEPTUAL CONTRIBUTION'',
     label_pattern ''PREREQUISITE DEPENDENCY'',
     seqs [Bol, stars02, lit ''WHAT THE READER KNOWS'', WordB],
     label_pattern ''SECTION SUMMARY'',
     label_pattern ''CONCEPTUAL CONTRIBUTION'',
     label_pattern ''KEY POINTS'',
     banner_pattern ''DOCUMENT SKELETON'',
     banner_pattern ''GENERATING SECTIONS'']"

text \<open>\<^verbatim>\<open>/^(#+\s+.+?)\s*\(\s*[\d,]+\s*words?\s*\)/i\<close>.\<close>

definition wordCountInHeader :: regex where
  "wordCountInHeader =
     seqs [Bol,
           Group 1 (seqs [plus_re (ci CHR ''#''), plus_re (Chr is_space),
                          plus_lazy (Chr (\<lambda>c. \<not> is_line_end c))]),
           wss, ci CHR ''('', wss, plus_re (Chr digit_or_comma), wss, lit ''word'',
           Opt (ci CHR ''s''), wss, ci CHR '')'']"

text \<open>One round of the loop over the lines; the state is \<^verbatim>\<open>cleanLines\<close> and
  \<^verbatim>\<open>skipNextBlank\<close>.\<close>

definition strip_line :: "string list \<times> bool \<Rightarrow> string \<Rightarrow> string list \<times> bool" where
  "strip_line acc line =
     (let cleanLines = fst acc; skipNextBlank = snd acc; trimmed = trim line
      in if list_ex (\<lambda>p. regex_test p trimmed) metadataPatterns then (cleanLines, True)
         else if skipNextBlank \<and> trimmed = [] then (cleanLines, False)
         else if trimmed = ''---'' then (cleanLines, False)
         else (case search_from wordCountInHeader None trimmed of
                 Some (start, headerMatch) \<Rightarrow> (cleanLines @ [trim (group_text headerMatch 1)], False)
               | None \<Rightarrow> (cleanLines @ [line], False)))"

text \<open>\<^verbatim>\<open>.replace(/\n{3,}/g, '\n\n')\<close>; the first argument counts the line feeds of the
  current run.\<close>

definition emit_newlines :: "nat \<Rightarrow> string" where
  "emit_newlines k = (if 3 \<le> k then [CHR 0x0A, CHR 0x0A] else replicate k (CHR 0x0A))"

fun squeeze_newlines :: "nat \<Rightarrow> string \<Rightarrow> string" where
  "squeeze_newlines k [] = emit_newlines k"
| "squeeze_newlines k (c # cs) =
     (if c = CHR 0x0A then squeeze_newlines (Suc k) cs
      else emit_newlines k @ c # squeeze_newlines 0 cs)"

definition stripSkeletonMetadata :: "string \<Rightarrow> string" where
  "stripSkeletonMetadata text =
     trim (squeeze_newlines 0 (join_lines (fst (foldl strip_line ([], False) (split_lines text)))))"

text \<open>\<^verbatim>\<open>generateSection\<close> returns the cleaned text (and the key points drawn from it,
  which the model leaves out).\<close>

definition generateSection :: "provider \<Rightarrow> int \<Rightarrow> error + string" where
  "generateSection p target =
     (case continuation_loop p target initial_section_state of
        Inl e \<Rightarrow> Inl e
      | Inr st \<Rightarrow> Inr (stripSkeletonMetadata (accumulatedContent st)))"

section \<open>The parse cache\<close>

text \<open>
  \<^verbatim>\<open>parseCache\<close> is a module-level \<^verbatim>\<open>Map\<close> from instruction text to the parsed
  object. Objects are shared by reference, so the model keeps a store of objects (a
  reference is an index into it) beside the cache. The matchers are a parameter of the
  cached parser; the program's parser runs \<open>run_matchers\<close>.
\<close>

type_synonym ref = nat

record heap =
  objects :: "ParsedInstructions list"
  parseCache :: "string \<rightharpoonup> ref"

definition empty_heap :: heap where
  "empty_heap = \<lparr>objects = [], parseCache = Map.empty\<rparr>"

definition parse_with ::
  "(string \<Rightarrow> ParsedInstructions option) \<Rightarrow> string \<Rightarrow> heap \<Rightarrow> (ref \<times> heap) option" where
  "parse_with matchers customInstructions h =
     (case parseCache h customInstructions of
        Some r \<Rightarrow> Some (r, h)
      | None \<Rightarrow>
          (case matchers customInstructions of
             None \<Rightarrow> None
           | Some result \<Rightarrow>
               Some (length (objects h),
                     h\<lparr>objects := objects h @ [result],
                       parseCache := (parseCache h)(customInstructions \<mapsto> length (objects h))\<rparr>)))"

definition parseExpansionInstructions :: "string \<Rightarrow> heap \<Rightarrow> (ref \<times> heap) option" where
  "parseExpansionInstructions = parse_with run_matchers"

definition deref :: "heap \<Rightarrow> ref \<Rightarrow> ParsedInstructions" where
  "deref h r = objects h ! r"

section \<open>universalExpand: target and structure\<close>

text \<open>\<^verbatim>\<open>parsed.targetWordCount || request.targetWordCount\<close>, then the default
  \<^verbatim>\<open>Math.max(inputWordCount * 10, 5000)\<close>: \<^verbatim>\<open>null\<close>, \<^verbatim>\<open>NaN\<close> and 0 are
  falsy.\<close>

definition truthy :: "number option \<Rightarrow> int option" where
  "truthy v = (case v of Some (Num n) \<Rightarrow> if n = 0 then None else Some n | _ \<Rightarrow> None)"

definition resolve_target :: "number option \<Rightarrow> number option \<Rightarrow> nat \<Rightarrow> int" where
  "resolve_target parsedTarget requestTarget inputWordCount =
     (case truthy parsedTarget of
        Some n \<Rightarrow> n
      | None \<Rightarrow> (case truthy requestTarget of
                   Some n \<Rightarrow> n
                 | None \<Rightarrow> max (int inputWordCount * 10) 5000))"

definition share :: "int \<Rightarrow> rat \<Rightarrow> int" where
  "share target f = Math_round (of_int target * f)"

definition large_structure :: "int \<Rightarrow> section_spec list" where
  "large_structure target =
     (let abstractWords = share target (1 / 100);
          introWords = share target (5 / 100);
          conclusionWords = share target (4 / 100);
          fixedTotal = abstractWords + introWords + conclusionWords;
          remainingWords = target - fixedTotal;
          bodySectionCount = 12;
          wordsPerSection = Math_round (of_int remainingWords / of_int bodySectionCount);
          bodyTotal = wordsPerSection * (bodySectionCount - 1);
          lastBodySectionWords = remainingWords - bodyTotal
      in [\<lparr>name = ''ABSTRACT'', wordCount = Num abstractWords\<rparr>,
          \<lparr>name = ''INTRODUCTION'', wordCount = Num introWords\<rparr>,
          \<lparr>name = ''LITERATURE REVIEW PART 1: HISTORICAL CONTEXT'', wordCount = Num wordsPerSection\<rparr>,
          \<lparr>name = ''LITERATURE REVIEW PART 2: CONTEMPORARY PERSPECTIVES'', wordCount = Num wordsPerSection\<rparr>,
          \<lparr>name = ''LITERATURE REVIEW PART 3: CRITICAL ANALYSIS'', wordCount = Num wordsPerSection\<rparr>,
          \<lparr>name = ''CHAPTER 1: FOUNDATIONAL CONCEPTS'', wordCount = Num wordsPerSection\<rparr>,
          \<lparr>name = ''CHAPTER 2: THEORETICAL FRAMEWORK'', wordCount = Num wordsPerSection\<rparr>,
          \<lparr>name = ''CHAPTER 3: CORE ARGUMENT DEVELOPMENT'', wordCount = Num wordsPerSection\<rparr>,
          \<lparr>name = ''CHAPTER 4: EVIDENCE AND ANALYSIS'', wordCount = Num wordsPerSection\<rparr>,
          \<lparr>name = ''CHAPTER 5: COUNTERARGUMENTS AND RESPONSES'', wordCount = Num wordsPerSection\<rparr>,
          \<lparr>name = ''CHAPTER 6: CASE STUDIES'', wordCount = Num wordsPerSection\<rparr>,
          \<lparr>name = ''CHAPTER 7: METHODOLOGICAL CONSIDERATIONS'', wordCount = Num wordsPerSection\<rparr>,
          \<lparr>name = ''CHAPTER 8: BROADER IMPLICATIONS'', wordCount = Num wordsPerSection\<rparr>,
          \<lparr>name = ''CHAPTER 9: FUTURE DIRECTIONS'', wordCount = Num lastBodySectionWords\<rparr>,
          \<lparr>name = ''CONCLUSION'', wordCount = Num conclusionWords\<rparr>])"

definition standard_structure :: "int \<Rightarrow> section_spec list" where
  "standard_structure target =
     [\<lparr>name = ''ABSTRACT'', wordCount = Num (share target (15 / 1000))\<rparr>,
      \<lparr>name = ''INTRODUCTION'', wordCount = Num (share target (10 / 100))\<rparr>,
      \<lparr>name = ''LITERATURE REVIEW'', wordCount = Num (share target (20 / 100))\<rparr>,
      \<lparr>name = ''CHAPTER 1: CORE ARGUMENT'', wordCount = Num (share target (175 / 1000))\<rparr>,
      \<lparr>name = ''CHAPTER 2: SUPPORTING ANALYSIS'', wordCount = Num (share target (175 / 1000))\<rparr>,
      \<lparr>name = ''CHAPTER 3: CRITICAL EXAMINATION'', wordCount = Num (share target (175 / 1000))\<rparr>,
      \<lparr>name = ''CHAPTER 4: IMPLICATIONS'', wordCount = Num (share target (10 / 100))\<rparr>,
      \<lparr>name = ''CONCLUSION'', wordCount = Num (share target (6 / 100))\<rparr>]"

definition synthesize :: "int \<Rightarrow> section_spec list" where
  "synthesize target =
     (if 50000 \<le> target then large_structure target else standard_structure target)"

text \<open>\<^verbatim>\<open>structure.reduce((sum, s) => sum + s.wordCount, 0)\<close>.\<close>

fun num_add :: "number \<Rightarrow> number \<Rightarrow> number" where
  "num_add (Num a) (Num b) = Num (a + b)"
| "num_add _ _ = NaN"

definition sum_counts :: "section_spec list \<Rightarrow> number" where
  "sum_counts st = foldl (\<lambda>acc s. num_add acc (wordCount s)) (Num 0) st"

text \<open>The count of a section as an integer (0 for \<^verbatim>\<open>NaN\<close>), for stating sums.\<close>

definition count_int :: "section_spec \<Rightarrow> int" where
  "count_int s = (case wordCount s of Num n \<Rightarrow> n | NaN \<Rightarrow> 0)"

text \<open>The distribution of the remaining budget over the sections whose count is 0. A
  total that is \<^verbatim>\<open>NaN\<close> makes the comparison false.\<close>

definition distribute :: "int \<Rightarrow> section_spec list \<Rightarrow> section_spec list" where
  "distribute target st =
     (let totalExplicit = sum_counts st;
          sectionsWithoutCount = filter (\<lambda>s. wordCount s = Num 0) st
      in case totalExplicit of
           NaN \<Rightarrow> st
         | Num explicit \<Rightarrow>
             if 0 < length sectionsWithoutCount \<and> explicit < target
             then (let remaining = target - explicit;
                       perSection = Math_round (of_int remaining / of_nat (length sectionsWithoutCount))
                   in map (\<lambda>s. if wordCount s = Num 0 then s\<lparr>wordCount := Num perSection\<rparr> else s) st)
             else st)"

text \<open>
  \<^verbatim>\<open>let structure = parsed.structure\<close> shares the parsed object's array: the
  distribution assigns to the \<^verbatim>\<open>wordCount\<close> of its entries in place, which the store
  shows; a synthesized structure is a new array.
\<close>

definition build_structure :: "int \<Rightarrow> ref \<Rightarrow> heap \<Rightarrow> section_spec list \<times> heap" where
  "build_structure target r h =
     (let parsed = deref h r
      in if structure parsed = [] then (synthesize target, h)
         else (let st = distribute target (structure parsed)
               in (st, h\<lparr>objects := (objects h)[r := parsed\<lparr>structure := st\<rparr>]\<rparr>)))"

section \<open>universalExpand: the loop over the sections\<close>

text \<open>
  What \<^verbatim>\<open>generateSection\<close> returns for the section of index \<open>i\<close> is a parameter of the
  loop (the delta report and the persistence that follow it catch their own errors). The
  events are those handed to \<^verbatim>\<open>onChunk\<close>: \<^verbatim>\<open>section_complete\<close> with the index, the
  section's word count and the cumulative count; \<^verbatim>\<open>complete\<close> at the ceiling, with the
  cumulative count; the final \<^verbatim>\<open>complete\<close> with the section total and the output count.
\<close>

datatype StreamChunk =
    SectionComplete nat nat nat
  | CompleteAtLimit nat
  | CompleteFinal nat nat

record job_state =
  sections :: "string list"
  cumulativeWordCount :: nat
  emitted :: "StreamChunk list"

type_synonym generator = "nat \<Rightarrow> section_spec \<Rightarrow> error + string"

definition initial_job_state :: job_state where
  "initial_job_state = \<lparr>sections = [], cumulativeWordCount = 0, emitted = []\<rparr>"

text \<open>\<^verbatim>\<open>maxWords && cumulativeWordCount >= maxWords\<close>.\<close>

definition ceiling_reached :: "number option \<Rightarrow> nat \<Rightarrow> bool" where
  "ceiling_reached maxWords c =
     (case truthy maxWords of Some m \<Rightarrow> m \<le> int c | None \<Rightarrow> False)"

definition emit :: "bool \<Rightarrow> StreamChunk \<Rightarrow> StreamChunk list" where
  "emit onChunk ev = (if onChunk then [ev] else [])"

fun section_loop ::
  "generator \<Rightarrow> number option \<Rightarrow> bool \<Rightarrow> nat \<Rightarrow> section_spec list \<Rightarrow> job_state
     \<Rightarrow> error + job_state" where
  "section_loop gen maxWords onChunk i [] js = Inr js"
| "section_loop gen maxWords onChunk i (sec # rest) js =
     (if ceiling_reached maxWords (cumulativeWordCount js)
      then Inr (js\<lparr>emitted := emitted js @ emit onChunk (CompleteAtLimit (cumulativeWordCount js))\<rparr>)
      else (case gen i sec of
              Inl e \<Rightarrow> Inl e
            | Inr sectionContent \<Rightarrow>
                (let fullSectionText = name sec @ [CHR 0x0A, CHR 0x0A] @ trim sectionContent;
                     sectionWordCount = split_count sectionContent;
                     newTotal = cumulativeWordCount js + sectionWordCount
                 in section_loop gen maxWords onChunk (i + 1) rest
                      \<lparr>sections = sections js @ [fullSectionText],
                       cumulativeWordCount = newTotal,
                       emitted = emitted js @ emit onChunk (SectionComplete i sectionWordCount newTotal)\<rparr>)))"

text \<open>The generator that \<^verbatim>\<open>universalExpand\<close> uses: \<^verbatim>\<open>generateSection\<close> with the
  section's word count as target, over one provider per section. A target that is
  \<^verbatim>\<open>NaN\<close> fails the loop condition at once and leaves the empty text.\<close>

definition generate_with :: "(nat \<Rightarrow> provider) \<Rightarrow> generator" where
  "generate_with providers i sec =
     (case wordCount sec of
        Num target \<Rightarrow> generateSection (providers i) target
      | NaN \<Rightarrow> Inr (stripSkeletonMetadata []))"

text \<open>The opening of \<^verbatim>\<open>universalExpand\<close>: parse the instructions, settle the target,
  build the structure.\<close>

definition universalExpand_structure ::
  "string \<Rightarrow> number option \<Rightarrow> nat \<Rightarrow> heap \<Rightarrow> ((int \<times> section_spec list) \<times> heap) option" where
  "universalExpand_structure customInstructions requestTarget inputWordCount h =
     (case parseExpansionInstructions customInstructions h of
        None \<Rightarrow> None
      | Some (r, h1) \<Rightarrow>
          (let target = resolve_target (targetWordCount (deref h1 r)) requestTarget inputWordCount;
               built = build_structure target r h1
           in Some ((target, fst built), snd built)))"

section \<open>The stitch pass: applying the repairs\<close>

text \<open>A repair entry as the stitch prompt asks for it; its three fields are texts.\<close>

record repair =
  sectionName :: string
  problematicText :: string
  repairedText :: string

text \<open>\<^verbatim>\<open>xs.findIndex(p)\<close>, with \<open>None\<close> for \<open>-1\<close>.\<close>

fun findIndex :: "('a \<Rightarrow> bool) \<Rightarrow> 'a list \<Rightarrow> nat option" where
  "findIndex P [] = None"
| "findIndex P (x # xs) = (if P x then Some 0 else map_option Suc (findIndex P xs))"

text \<open>\<^verbatim>\<open>s.indexOf(pat)\<close>, with \<open>None\<close> for \<open>-1\<close>.\<close>

fun index_of :: "string \<Rightarrow> string \<Rightarrow> nat option" where
  "index_of pat [] = (if pat = [] then Some 0 else None)"
| "index_of pat (c # cs) =
     (if prefix pat (c # cs) then Some 0 else map_option Suc (index_of pat cs))"

text \<open>
  \<^verbatim>\<open>s.replace(pat, rep)\<close> with a text pattern replaces the first occurrence, and reads
  the replacement as a template: \<^verbatim>\<open>$$\<close> is a dollar sign, \<^verbatim>\<open>$&\<close> the matched text,
  \<^verbatim>\<open>$`\<close> the text before the match and \<^verbatim>\<open>$'\<close> the text after it; there are no
  capture groups, so every other \<^verbatim>\<open>$\<close> stands for itself.
\<close>

fun get_substitution :: "string \<Rightarrow> string \<Rightarrow> string \<Rightarrow> string \<Rightarrow> string" where
  "get_substitution matched before after [] = []"
| "get_substitution matched before after [c] = [c]"
| "get_substitution matched before after (c # d # cs) =
     (if c = CHR ''$'' \<and> d = CHR ''$'' then CHR ''$'' # get_substitution matched before after cs
      else if c = CHR ''$'' \<and> d = CHR ''&'' then matched @ get_substitution matched before after cs
      else if c = CHR ''$'' \<and> d = CHR 0x60 then before @ get_substitution matched before after cs
      else if c = CHR ''$'' \<and> d = CHR 0x27 then after @ get_substitution matched before after cs
      else c # get_substitution matched before after (d # cs))"

definition replace_first :: "string \<Rightarrow> string \<Rightarrow> string \<Rightarrow> string" where
  "replace_first s pat rep =
     (case index_of pat s of
        None \<Rightarrow> s
      | Some i \<Rightarrow>
          take i s
          @ get_substitution pat (take i s) (drop (i + length pat) s) rep
          @ drop (i + length pat) s)"

text \<open>The three ways of finding the section of a repair, in the order of the source.\<close>

definition locate_section :: "section_spec list \<Rightarrow> string list \<Rightarrow> repair \<Rightarrow> nat option" where
  "locate_section st secs rp =
     (case findIndex (\<lambda>s. name s = sectionName rp) st of
        Some i \<Rightarrow> Some i
      | None \<Rightarrow>
          (case findIndex (\<lambda>s. startsWith s (sectionName rp)) secs of
             Some i \<Rightarrow> Some i
           | None \<Rightarrow> findIndex (\<lambda>s. str_includes s (problematicText rp)) secs))"

text \<open>
  One round of the loop over the repairs. An index found in the structure can lie beyond
  the generated sections; \<^verbatim>\<open>sections[sectionIdx]\<close> is then \<^verbatim>\<open>undefined\<close> and the
  call of \<^verbatim>\<open>replace\<close> on it throws.
\<close>

definition apply_repair :: "section_spec list \<Rightarrow> string list \<Rightarrow> repair \<Rightarrow> error + string list" where
  "apply_repair st secs rp =
     (case locate_section st secs rp of
        None \<Rightarrow> Inr secs
      | Some sectionIdx \<Rightarrow>
          if problematicText rp \<noteq> [] \<and> repairedText rp \<noteq> []
          then (if sectionIdx < length secs
                then Inr (secs[sectionIdx :=
                            replace_first (secs ! sectionIdx) (problematicText rp) (repairedText rp)])
                else Inl TypeError)
          else Inr secs)"

text \<open>The loop; an error ends the pass (it is caught around the whole pass) and leaves
  the sections as they are at that moment.\<close>

fun apply_repairs :: "section_spec list \<Rightarrow> string list \<Rightarrow> repair list \<Rightarrow> string list" where
  "apply_repairs st secs [] = secs"
| "apply_repairs st secs (rp # rps) =
     (case apply_repair st secs rp of
        Inl e \<Rightarrow> secs
      | Inr secs' \<Rightarrow> apply_repairs st secs' rps)"

section \<open>universalExpand: the result\<close>

text \<open>\<^verbatim>\<open>sections.join('\n\n')\<close>.\<close>

fun join_sections :: "string list \<Rightarrow> string" where
  "join_sections [] = []"
| "join_sections [s] = s"
| "join_sections (s # ss) = s @ [CHR 0x0A, CHR 0x0A] @ join_sections ss"

text \<open>The returned record, without the input word count and the elapsed time.\<close>

record ExpansionResult =
  expandedText :: string
  outputWordCount :: nat
  sectionsGenerated :: nat

definition assemble :: "section_spec list \<Rightarrow> string list \<Rightarrow> ExpansionResult" where
  "assemble st secs =
     \<lparr>expandedText = join_sections secs,
      outputWordCount = split_count (join_sections secs),
      sectionsGenerated = length st\<rparr>"

text \<open>
  From the structure on: the section loop, the repairs that the stitch call returned (none
  when the pass is skipped or fails), the final event and the result.
\<close>

definition expand_sections ::
  "generator \<Rightarrow> number option \<Rightarrow> bool \<Rightarrow> section_spec list \<Rightarrow> repair list
     \<Rightarrow> error + (ExpansionResult \<times> job_state)" where
  "expand_sections gen maxWords onChunk st repairs =
     (case section_loop gen maxWords onChunk 0 st initial_job_state of
        Inl e \<Rightarrow> Inl e
      | Inr js \<Rightarrow>
          (let secs = apply_repairs st (sections js) repairs;
               res = assemble st secs
           in Inr (res,
                   js\<lparr>sections := secs,
                      emitted := emitted js
                        @ emit onChunk (CompleteFinal (length st) (outputWordCount res))\<rparr>)))"

section \<open>Concrete inputs\<close>

text \<open>A provider whose every response is the one word \<open>word\<close>, cut off by the length
  limit; one that ends its turn after that word; one whose response is a single
  metadata line.\<close>

definition truncated_provider :: provider where
  "truncated_provider n = Inr \<lparr>content = ''word'', stop_reason = max_tokens\<rparr>"



text \<open>A generator that returns two words for every section, and a structure of two
  sections of ten words each.\<close>

definition two_word_generator :: generator where
  "two_word_generator i sec = Inr ''alpha beta''"

definition two_sections :: "section_spec list" where
  "two_sections = [\<lparr>name = ''A'', wordCount = Num 10\<rparr>, \<lparr>name = ''B'', wordCount = Num 10\<rparr>]"

text \<open>A user-specified structure of three sections without word counts.\<close>

definition three_unsized :: "section_spec list" where
  "three_unsized =
     [\<lparr>name = ''A'', wordCount = Num 0\<rparr>, \<lparr>name = ''B'', wordCount = Num 0\<rparr>,
      \<lparr>name = ''C'', wordCount = Num 0\<rparr>]"

text \<open>Instructions that name one chapter and give no word count.\<close>

definition chapter_only :: string where
  "chapter_only = ''CHAPTER 1: Intro''"

text \<open>The store after the first parse of these instructions, and after the structure of
  a 1000-word job has been built from them.\<close>

definition heap_after_parse :: heap where
  "heap_after_parse =
     \<lparr>objects = [\<lparr>targetWordCount = None,
                  structure = [\<lparr>name = ''CHAPTER 1: Intro'', wordCount = Num 0\<rparr>]\<rparr>],
      parseCache = [chapter_only \<mapsto> 0]\<rparr>"

definition heap_after_expand :: heap where
  "heap_after_expand =
     \<lparr>objects = [\<lparr>targetWordCount = None,
                  structure = [\<lparr>name = ''CHAPTER 1: Intro'', wordCount = Num 1000\<rparr>]\<rparr>],
      parseCache = [chapter_only \<mapsto> 0]\<rparr>"

text \<open>The texts of two generated sections, and three repairs: one that names the section
  holding its problematic text, one that names the other section, one whose problematic
  text occurs nowhere.\<close>

definition two_texts :: "string list" where
  "two_texts = [''A\<newline>\<newline>foo'', ''B\<newline>\<newline>bar'']"




definition repair_unnamed :: repair where
  "repair_unnamed = \<lparr>sectionName = ''Z'', problematicText = ''bar'', repairedText = ''baz''\<rparr>"

text \<open>The instruction text of the Roman-numeral chapter.\<close>

definition roman_chapter :: string where
  "roman_chapter = ''CHAPTER IV: Methods (2,000 words)''"

section \<open>The shape of an EXPAND TO clause\<close>







section \<open>Properties of the continuation loop\<close>

lemma trim_Nil [simp]: "trim [] = []"
  by (simp add: trim_def)

lemma word_count_Nil [simp]: "word_count [] = 0"
  by (simp add: word_count_def split_ws.simps [of "[]"])






lemma trim_word: "trim ''word'' = ''word''"
  by (simp add: trim_def is_space_def)

lemma word_count_word: "word_count ''word'' = 1"
  by (simp add: word_count_def trim_word split_ws.simps [of "''word''"] is_space_def)




text \<open>
  C2, at a failing input. The target is 1 word; the first response holds one word and was
  cut off by the length limit. The loop returns after that single attempt.
\<close>

theorem truncated_response_not_continued:
  "continuation_loop truncated_provider 1 initial_section_state
   = Inr \<lparr>accumulatedContent = ''word'', currentWordCount = 1, continuationAttempts = 1\<rparr>"
  apply (subst continuation_loop.simps)
  apply (simp add: initial_section_state_def below_target_def maxContinuationAttempts_def
      append_chunk_def Let_def trim_word word_count_word truncated_provider_def)
  apply (subst continuation_loop.simps)
  apply (simp add: below_target_def)
  done

section \<open>Properties of the loop over the sections\<close>



lemma split_count_alpha_beta: "split_count ''alpha beta'' = 2"
  by code_simp

lemma trim_alpha_beta: "trim ''alpha beta'' = ''alpha beta''"
  by code_simp


lemma length_two_sections: "length two_sections = 2"
  by (simp add: two_sections_def)

lemma two_sections_run:
  "section_loop two_word_generator (Some (Num 1)) True 0 two_sections initial_job_state
   = Inr \<lparr>sections = [''A\<newline>\<newline>alpha beta''],
          cumulativeWordCount = 2,
          emitted = [SectionComplete 0 2 2, CompleteAtLimit 2]\<rparr>"
  apply (simp add: two_sections_def)
  apply (simp add: initial_job_state_def two_word_generator_def
      ceiling_reached_def truthy_def emit_def Let_def split_count_alpha_beta trim_alpha_beta)
  done



text \<open>
  C9, at a failing input. Two sections are planned and the ceiling is 1 word; the first
  section brings two words, so the loop stops before the second. One section is in the
  assembled text, and \<^verbatim>\<open>sectionsGenerated\<close> is 2, the length of the plan.
\<close>

theorem sectionsGenerated_counts_planned_sections:
  "expand_sections two_word_generator (Some (Num 1)) True two_sections []
   = Inr (\<lparr>expandedText = ''A\<newline>\<newline>alpha beta'',
           outputWordCount = 3,
           sectionsGenerated = 2\<rparr>,
          \<lparr>sections = [''A\<newline>\<newline>alpha beta''],
           cumulativeWordCount = 2,
           emitted = [SectionComplete 0 2 2, CompleteAtLimit 2, CompleteFinal 2 3]\<rparr>)"
proof -
  have c: "split_count ''A\<newline>\<newline>alpha beta'' = 3"
    by code_simp
  show ?thesis
    by (simp add: expand_sections_def two_sections_run assemble_def Let_def emit_def c
        length_two_sections)
qed

section \<open>Properties of the structure tables and of the distribution\<close>

lemma foldl_num_add_NaN:
  "foldl (\<lambda>acc s. num_add acc (wordCount s)) NaN st = NaN"
  by (induction st) simp_all

lemma foldl_num_add:
  "foldl (\<lambda>acc s. num_add acc (wordCount s)) (Num a) st
   = (if \<forall>s \<in> set st. wordCount s \<noteq> NaN then Num (a + sum_list (map count_int st)) else NaN)"
proof (induction st arbitrary: a)
  case Nil
  show ?case by simp
next
  case (Cons s st)
  show ?case
  proof (cases "wordCount s")
    case NaN
    then show ?thesis by (simp add: foldl_num_add_NaN)
  next
    case (Num n)
    then have "count_int s = n" by (simp add: count_int_def)
    with Num show ?thesis by (simp add: Cons.IH)
  qed
qed

lemma sum_counts_eq:
  "sum_counts st
   = (if \<forall>s \<in> set st. wordCount s \<noteq> NaN then Num (sum_list (map count_int st)) else NaN)"
  by (simp add: sum_counts_def foldl_num_add)

lemma sum_counts_Num:
  "sum_counts st = Num n \<longleftrightarrow> (\<forall>s \<in> set st. wordCount s \<noteq> NaN) \<and> sum_list (map count_int st) = n"
  by (simp add: sum_counts_eq)

lemma large_structure_sum: "sum_counts (large_structure target) = Num target"
  by (simp add: large_structure_def sum_counts_def Let_def)

lemma Math_round_quotient:
  assumes "0 < k"
  shows "Math_round (of_int r / of_int k) = (2 * r + k) div (2 * k)"
proof -
  have "(of_int r / of_int k + 1 / 2 :: rat) = of_int (2 * r + k) / of_int (2 * k)"
    using assms by (simp add: field_simps)
  then show ?thesis
    by (simp only: Math_round_def floor_divide_of_int_eq)
qed

lemma Math_round_quotient_bounds:
  assumes "0 < k"
  shows "2 * \<bar>k * Math_round (of_int r / of_int k) - r\<bar> \<le> k"
    and "k \<le> 2 * r \<Longrightarrow> 1 \<le> Math_round (of_int r / of_int k)"
proof -
  define q where "q = (2 * r + k) div (2 * k)"
  have q: "Math_round (of_int r / of_int k) = q"
    using assms by (simp add: Math_round_quotient q_def)
  have pos: "0 < 2 * k" using assms by simp
  have "2 * r + k = 2 * k * q + (2 * r + k) mod (2 * k)"
    by (simp add: q_def)
  moreover have "0 \<le> (2 * r + k) mod (2 * k)" "(2 * r + k) mod (2 * k) < 2 * k"
    using pos by (simp_all only: pos_mod_sign pos_mod_bound)
  ultimately have b: "2 * k * q \<le> 2 * r + k" "2 * r + k < 2 * k * q + 2 * k"
    by linarith+
  have "2 * (k * q - r) \<le> k" "- k < 2 * (k * q - r)"
    using b by (simp_all add: algebra_simps)
  then show "2 * \<bar>k * Math_round (of_int r / of_int k) - r\<bar> \<le> k"
    unfolding q by linarith
  show "1 \<le> Math_round (of_int r / of_int k)" if "k \<le> 2 * r"
  proof -
    have "2 * k \<le> 2 * r + k" using that by simp
    then have "0 < (2 * r + k) div (2 * k)"
      using pos by (simp only: pos_imp_zdiv_pos_iff)
    then have "1 \<le> (2 * r + k) div (2 * k)" by linarith
    then show ?thesis unfolding q q_def .
  qed
qed

lemma distribute_map:
  assumes "sum_counts st = Num explicit"
    and "0 < length (filter (\<lambda>s. wordCount s = Num 0) st)"
    and "explicit < target"
  shows "distribute target st
         = map (\<lambda>s. if wordCount s = Num 0
                      then s\<lparr>wordCount := Num (Math_round (of_int (target - explicit)
                                 / of_nat (length (filter (\<lambda>s. wordCount s = Num 0) st))))\<rparr>
                      else s) st"
  using assms by (simp add: distribute_def Let_def)

lemma distribute_unchanged:
  assumes "sum_counts st = Num explicit"
    and "length (filter (\<lambda>s. wordCount s = Num 0) st) = 0 \<or> target \<le> explicit"
  shows "distribute target st = st"
  using assms by (auto simp: distribute_def Let_def)

lemma sum_after_fill:
  assumes "\<forall>s \<in> set st. wordCount s \<noteq> NaN"
  shows "sum_list (map count_int
           (map (\<lambda>s. if wordCount s = Num 0 then s\<lparr>wordCount := Num p\<rparr> else s) st))
         = sum_list (map count_int st) + int (length (filter (\<lambda>s. wordCount s = Num 0) st)) * p"
  using assms
proof (induction st)
  case Nil
  show ?case by simp
next
  case (Cons s st)
  then have IH: "sum_list (map count_int
           (map (\<lambda>s. if wordCount s = Num 0 then s\<lparr>wordCount := Num p\<rparr> else s) st))
         = sum_list (map count_int st) + int (length (filter (\<lambda>s. wordCount s = Num 0) st)) * p"
    by simp
  show ?case
  proof (cases "wordCount s = Num 0")
    case True
    then have "count_int s = 0" by (simp add: count_int_def)
    moreover have "count_int (s\<lparr>wordCount := Num p\<rparr>) = p" by (simp add: count_int_def)
    ultimately show ?thesis using True IH by (simp add: algebra_simps)
  next
    case False
    then show ?thesis using IH by simp
  qed
qed

lemma filled_not_NaN:
  assumes "\<forall>s \<in> set st. wordCount s \<noteq> NaN"
  shows "\<forall>s \<in> set (map (\<lambda>s. if wordCount s = Num 0 then s\<lparr>wordCount := Num p\<rparr> else s) st).
           wordCount s \<noteq> NaN"
  using assms by auto

text \<open>
  C3, as amended.
  (1) For a target of at least 50,000 the synthesized table sums to the target exactly: the
  eleven body sections before the last share one rounded count, and the last body section,
  at index 13, takes what is left of the body budget.
  (2) For a user-specified structure whose counts sum to \<open>explicit\<close>, with \<open>k > 0\<close>
  sections of count 0 and a target above \<open>explicit\<close>: the names are kept, a section with a
  count keeps it, every section of count 0 gets the rounded share \<open>p\<close> of the remaining
  budget, the new total \<open>explicit + k * p\<close> is within \<open>k / 2\<close> of the target, and no
  section is left at 0 when the remaining budget is at least \<open>k / 2\<close>.
  (3) With no section of count 0, or a target that does not exceed \<open>explicit\<close>, the
  structure is left as it is.
\<close>

theorem structure_allocation:
  "(50000 \<le> target1 \<longrightarrow>
      sum_counts (synthesize target1) = Num target1
      \<and> (let a = share target1 (1 / 100); i = share target1 (5 / 100);
              c = share target1 (4 / 100);
              w = Math_round (of_int (target1 - (a + i + c)) / of_int 12)
          in map wordCount (synthesize target1)
             = [Num a, Num i] @ replicate 11 (Num w)
               @ [Num (target1 - (a + i + c) - w * 11), Num c]))
   \<and> (sum_counts st2 = Num explicit2
        \<and> 0 < length (filter (\<lambda>s. wordCount s = Num 0) st2)
        \<and> explicit2 < target2 \<longrightarrow>
        (let k = length (filter (\<lambda>s. wordCount s = Num 0) st2);
             p = Math_round (of_int (target2 - explicit2) / of_nat k);
             st' = distribute target2 st2
         in map name st' = map name st2
            \<and> (\<forall>i < length st2. wordCount (st2 ! i) \<noteq> Num 0 \<longrightarrow> st' ! i = st2 ! i)
            \<and> (\<forall>i < length st2. wordCount (st2 ! i) = Num 0 \<longrightarrow> wordCount (st' ! i) = Num p)
            \<and> sum_counts st' = Num (explicit2 + int k * p)
            \<and> 2 * \<bar>explicit2 + int k * p - target2\<bar> \<le> int k
            \<and> (int k \<le> 2 * (target2 - explicit2) \<longrightarrow> (\<forall>s \<in> set st'. wordCount s \<noteq> Num 0))))
   \<and> (sum_counts st3 = Num explicit3
        \<and> (length (filter (\<lambda>s. wordCount s = Num 0) st3) = 0 \<or> target3 \<le> explicit3) \<longrightarrow>
        distribute target3 st3 = st3)"
proof (intro conjI impI)
  assume "50000 \<le> target1"
  then show "sum_counts (synthesize target1) = Num target1"
    by (simp add: synthesize_def large_structure_sum)
next
  assume "50000 \<le> target1"
  then show "let a = share target1 (1 / 100); i = share target1 (5 / 100);
              c = share target1 (4 / 100);
              w = Math_round (of_int (target1 - (a + i + c)) / of_int 12)
          in map wordCount (synthesize target1)
             = [Num a, Num i] @ replicate 11 (Num w)
               @ [Num (target1 - (a + i + c) - w * 11), Num c]"
    by (simp add: synthesize_def large_structure_def Let_def numeral_eq_Suc)
next
  assume "sum_counts st3 = Num explicit3
        \<and> (length (filter (\<lambda>s. wordCount s = Num 0) st3) = 0 \<or> target3 \<le> explicit3)"
  then show "distribute target3 st3 = st3"
    using distribute_unchanged by blast
next
  assume h: "sum_counts st2 = Num explicit2
        \<and> 0 < length (filter (\<lambda>s. wordCount s = Num 0) st2)
        \<and> explicit2 < target2"
  define k where "k = length (filter (\<lambda>s. wordCount s = Num 0) st2)"
  define p where "p = Math_round (of_int (target2 - explicit2) / of_nat k)"
  define st' where "st' = distribute target2 st2"
  have kpos: "0 < k" using h by (simp add: k_def)
  have st'_eq: "st' = map (\<lambda>s. if wordCount s = Num 0 then s\<lparr>wordCount := Num p\<rparr> else s) st2"
    using h unfolding st'_def p_def k_def by (intro distribute_map) simp_all
  have nn: "\<forall>s \<in> set st2. wordCount s \<noteq> NaN" and ex: "sum_list (map count_int st2) = explicit2"
    using h by (simp_all add: sum_counts_Num)
  have names: "map name st' = map name st2"
    unfolding st'_eq by (induction st2) simp_all
  have keep: "\<forall>i < length st2. wordCount (st2 ! i) \<noteq> Num 0 \<longrightarrow> st' ! i = st2 ! i"
    unfolding st'_eq by simp
  have fill: "\<forall>i < length st2. wordCount (st2 ! i) = Num 0 \<longrightarrow> wordCount (st' ! i) = Num p"
    unfolding st'_eq by simp
  have total: "sum_counts st' = Num (explicit2 + int k * p)"
    unfolding st'_eq using nn ex sum_after_fill [OF nn, of p] filled_not_NaN [OF nn, of p]
    by (simp add: sum_counts_Num k_def)
  have p_eq: "p = Math_round (of_int (target2 - explicit2) / of_int (int k))"
    by (simp add: p_def)
  have ikpos: "0 < int k" using kpos by simp
  have near: "2 * \<bar>explicit2 + int k * p - target2\<bar> \<le> int k"
    using Math_round_quotient_bounds(1) [OF ikpos, of "target2 - explicit2"]
    unfolding p_eq by (simp add: algebra_simps)
  have nonzero: "\<forall>s \<in> set st'. wordCount s \<noteq> Num 0" if "int k \<le> 2 * (target2 - explicit2)"
  proof -
    have "1 \<le> p"
      using Math_round_quotient_bounds(2) [OF ikpos that] unfolding p_eq .
    then show ?thesis unfolding st'_eq by auto
  qed
  show "let k = length (filter (\<lambda>s. wordCount s = Num 0) st2);
             p = Math_round (of_int (target2 - explicit2) / of_nat k);
             st' = distribute target2 st2
         in map name st' = map name st2
            \<and> (\<forall>i < length st2. wordCount (st2 ! i) \<noteq> Num 0 \<longrightarrow> st' ! i = st2 ! i)
            \<and> (\<forall>i < length st2. wordCount (st2 ! i) = Num 0 \<longrightarrow> wordCount (st' ! i) = Num p)
            \<and> sum_counts st' = Num (explicit2 + int k * p)
            \<and> 2 * \<bar>explicit2 + int k * p - target2\<bar> \<le> int k
            \<and> (int k \<le> 2 * (target2 - explicit2) \<longrightarrow> (\<forall>s \<in> set st'. wordCount s \<noteq> Num 0))"
    unfolding Let_def k_def [symmetric] p_def [symmetric] st'_def [symmetric]
    using names keep fill total near nonzero by blast
qed

lemma share_5001:
  "share 5001 (15 / 1000) = 75" "share 5001 (10 / 100) = 500" "share 5001 (20 / 100) = 1000"
  "share 5001 (175 / 1000) = 875" "share 5001 (6 / 100) = 300"
  by (simp_all add: share_def Math_round_def floor_eq_iff)

lemma standard_5001:
  "synthesize 5001 =
     [\<lparr>name = ''ABSTRACT'', wordCount = Num 75\<rparr>,
      \<lparr>name = ''INTRODUCTION'', wordCount = Num 500\<rparr>,
      \<lparr>name = ''LITERATURE REVIEW'', wordCount = Num 1000\<rparr>,
      \<lparr>name = ''CHAPTER 1: CORE ARGUMENT'', wordCount = Num 875\<rparr>,
      \<lparr>name = ''CHAPTER 2: SUPPORTING ANALYSIS'', wordCount = Num 875\<rparr>,
      \<lparr>name = ''CHAPTER 3: CRITICAL EXAMINATION'', wordCount = Num 875\<rparr>,
      \<lparr>name = ''CHAPTER 4: IMPLICATIONS'', wordCount = Num 500\<rparr>,
      \<lparr>name = ''CONCLUSION'', wordCount = Num 300\<rparr>]"
proof -
  have "synthesize 5001 = standard_structure 5001"
    by (simp add: synthesize_def)
  also have "\<dots> = [\<lparr>name = ''ABSTRACT'', wordCount = Num 75\<rparr>,
      \<lparr>name = ''INTRODUCTION'', wordCount = Num 500\<rparr>,
      \<lparr>name = ''LITERATURE REVIEW'', wordCount = Num 1000\<rparr>,
      \<lparr>name = ''CHAPTER 1: CORE ARGUMENT'', wordCount = Num 875\<rparr>,
      \<lparr>name = ''CHAPTER 2: SUPPORTING ANALYSIS'', wordCount = Num 875\<rparr>,
      \<lparr>name = ''CHAPTER 3: CRITICAL EXAMINATION'', wordCount = Num 875\<rparr>,
      \<lparr>name = ''CHAPTER 4: IMPLICATIONS'', wordCount = Num 500\<rparr>,
      \<lparr>name = ''CONCLUSION'', wordCount = Num 300\<rparr>]"
    unfolding standard_structure_def by (simp only: share_5001)
  finally show ?thesis .
qed

lemma standard_5001_sum: "sum_counts (synthesize 5001) = Num 5000"
  by (simp add: standard_5001 sum_counts_def)

lemma sum_three_unsized: "sum_counts three_unsized = Num 0"
  by (simp add: three_unsized_def sum_counts_def)

lemma filter_three_unsized: "filter (\<lambda>s. wordCount s = Num 0) three_unsized = three_unsized"
  by (simp add: three_unsized_def)

lemma length_three_unsized: "length three_unsized = 3"
  by (simp add: three_unsized_def)

lemma round_ten_thirds: "Math_round (10 / 3) = 3"
  by (simp add: Math_round_def floor_eq_iff)

lemma distribute_three_unsized: "distribute 10 three_unsized = [\<lparr>name = ''A'', wordCount = Num 3\<rparr>, \<lparr>name = ''B'', wordCount = Num 3\<rparr>,
      \<lparr>name = ''C'', wordCount = Num 3\<rparr>]"
  by (simp add: distribute_def sum_three_unsized filter_three_unsized length_three_unsized round_ten_thirds Let_def) (simp add: three_unsized_def round_ten_thirds)

lemma distribute_three_unsized_sum: "sum_counts (distribute 10 three_unsized) = Num 9"
  by (simp add: distribute_three_unsized sum_counts_def)


lemma large_50000_sum: "sum_counts (synthesize 50000) = Num 50000"
  by (simp add: synthesize_def large_structure_sum)

lemma sum_two_sections: "sum_counts two_sections = Num 20"
  by (simp add: two_sections_def sum_counts_def)

lemma filter_two_sections: "filter (\<lambda>s. wordCount s = Num 0) two_sections = []"
  by (simp add: two_sections_def)


theorem structure_allocation_witness:
  "(50000::int) \<le> 50000 \<and> sum_counts (synthesize 50000) = Num 50000
   \<and> sum_counts three_unsized = Num 0
   \<and> 0 < length (filter (\<lambda>s. wordCount s = Num 0) three_unsized) \<and> (0::int) < 10
   \<and> sum_counts (distribute 10 three_unsized) = Num 9
   \<and> sum_counts two_sections = Num 20
   \<and> length (filter (\<lambda>s. wordCount s = Num 0) two_sections) = 0
   \<and> distribute 100 two_sections = two_sections"
  using structure_allocation [of 50000 three_unsized 0 10 two_sections 20 100]
  by (simp add: sum_three_unsized filter_three_unsized length_three_unsized sum_two_sections
      filter_two_sections distribute_three_unsized_sum large_50000_sum)

text \<open>
  C3 as stated fails. For the target 5001 the standard table sums to 5000. For the target
  10 and three sections without a count, each gets 3 words and the structure sums to 9.
\<close>

theorem allocation_sum_counterexample:
  "sum_counts (synthesize 5001) = Num 5000 \<and> Num 5000 \<noteq> Num 5001
   \<and> sum_counts (distribute 10 three_unsized) = Num 9 \<and> Num 9 \<noteq> Num 10"
  by (simp add: standard_5001_sum distribute_three_unsized_sum)

section \<open>Every loop of the parser ends\<close>

lemma rep_greedy_shrink:
  assumes f: "\<And>st st'. st' \<in> set (f st) \<Longrightarrow> length (rest_of st') \<le> length (rest_of st)"
    and "st' \<in> set (rep_greedy f fuel st)"
  shows "length (rest_of st') \<le> length (rest_of st)"
  using assms(2)
proof (induction fuel arbitrary: st)
  case Nil
  then show ?case by simp
next
  case (Cons x fuel)
  from Cons.prems consider "st' = st"
    | st1 where "st1 \<in> set (f st)" "st' \<in> set (rep_greedy f fuel st1)"
    by (auto split: if_splits)
  then show ?case
  proof cases
    case 1
    then show ?thesis by simp
  next
    case 2
    from Cons.IH [OF 2(2)] f [OF 2(1)] show ?thesis by simp
  qed
qed

lemma rep_lazy_shrink:
  assumes f: "\<And>st st'. st' \<in> set (f st) \<Longrightarrow> length (rest_of st') \<le> length (rest_of st)"
    and "st' \<in> set (rep_lazy f fuel st)"
  shows "length (rest_of st') \<le> length (rest_of st)"
  using assms(2)
proof (induction fuel arbitrary: st)
  case Nil
  then show ?case by simp
next
  case (Cons x fuel)
  from Cons.prems consider "st' = st"
    | st1 where "st1 \<in> set (f st)" "st' \<in> set (rep_lazy f fuel st1)"
    by (auto split: if_splits)
  then show ?case
  proof cases
    case 1
    then show ?thesis by simp
  next
    case 2
    from Cons.IH [OF 2(2)] f [OF 2(1)] show ?thesis by simp
  qed
qed

lemma matches_shrink:
  "st' \<in> set (matches r st) \<Longrightarrow>
     length (rest_of st') \<le> length (rest_of st)
     \<and> (consumes r \<longrightarrow> length (rest_of st') < length (rest_of st))"
proof (induction r arbitrary: st st')
  case Eps
  then show ?case by simp
next
  case (Chr P)
  then show ?case
    by (cases "rest_of st") (auto simp: rest_of_def split: if_splits)
next
  case (Seq a b)
  from Seq.prems obtain st1 where 1: "st1 \<in> set (matches a st)" and 2: "st' \<in> set (matches b st1)"
    by auto
  from Seq.IH(1) [OF 1] Seq.IH(2) [OF 2] show ?case by simp linarith
next
  case (Alt a b)
  from Alt.prems have "st' \<in> set (matches a st) \<or> st' \<in> set (matches b st)" by simp
  then show ?case
  proof
    assume "st' \<in> set (matches a st)"
    from Alt.IH(1) [OF this] show ?thesis by simp
  next
    assume "st' \<in> set (matches b st)"
    from Alt.IH(2) [OF this] show ?thesis by simp
  qed
next
  case (Star a)
  have "length (rest_of st') \<le> length (rest_of st)"
  proof (rule rep_greedy_shrink)
    show "st' \<in> set (rep_greedy (matches a) (rest_of st) st)" using Star.prems by simp
    show "\<And>s s'. s' \<in> set (matches a s) \<Longrightarrow> length (rest_of s') \<le> length (rest_of s)"
      using Star.IH by blast
  qed
  then show ?case by simp
next
  case (StarLazy a)
  have "length (rest_of st') \<le> length (rest_of st)"
  proof (rule rep_lazy_shrink)
    show "st' \<in> set (rep_lazy (matches a) (rest_of st) st)" using StarLazy.prems by simp
    show "\<And>s s'. s' \<in> set (matches a s) \<Longrightarrow> length (rest_of s') \<le> length (rest_of s)"
      using StarLazy.IH by blast
  qed
  then show ?case by simp
next
  case (Opt a)
  from Opt.prems have "st' = st \<or> st' \<in> set (matches a st)" by auto
  then show ?case
  proof
    assume "st' = st"
    then show ?thesis by simp
  next
    assume "st' \<in> set (matches a st)"
    from Opt.IH [OF this] show ?thesis by simp
  qed
next
  case (Group k a)
  from Group.prems obtain st1 where 1: "st1 \<in> set (matches a st)" and 2: "rest_of st' = rest_of st1"
    by (auto simp: rest_of_def)
  from Group.IH [OF 1] 2 show ?case by simp
next
  case Bol
  then show ?case by (simp split: if_splits)
next
  case BolM
  then show ?case by (simp split: option.splits if_splits)
next
  case Eol
  then show ?case by (simp split: if_splits)
next
  case WordB
  then show ?case by (simp add: Let_def split: if_splits)
qed

lemma search_from_found:
  assumes "search_from r prev t = Some (start, st)"
  shows "\<exists>p. st \<in> set (matches r (p, start, [])) \<and> length start \<le> length t"
  using assms
proof (induction t arbitrary: prev)
  case Nil
  then have "st \<in> set (matches r (prev, [], []))" and "start = []"
    by (auto split: list.splits)
  then show ?case by auto
next
  case (Cons c cs)
  show ?case
  proof (cases "matches r (prev, c # cs, [])")
    case Nil
    with Cons.prems have "search_from r (Some c) cs = Some (start, st)" by simp
    from Cons.IH [OF this] show ?thesis by auto
  next
    case (Cons st0 sts)
    with Cons.prems have "start = c # cs" "st = st0" by simp_all
    with Cons show ?thesis by (intro exI [of _ prev]) simp
  qed
qed

lemma search_from_consumes:
  assumes "search_from r prev t = Some (start, st)" and "consumes r"
  shows "length (rest_of st) < length t"
proof -
  from search_from_found [OF assms(1)] obtain p where
    "st \<in> set (matches r (p, start, []))" and "length start \<le> length t" by blast
  with matches_shrink [of st r "(p, start, [])"] assms(2) show ?thesis
    by (simp add: rest_of_def)
qed

lemma exec_all_returns:
  assumes "consumes r"
  shows "\<exists>ms. exec_all r prev t = Some ms"
  using assms
proof (induction r prev t rule: exec_all.induct)
  case (1 r prev t)
  show ?case
  proof (cases "search_from r prev t")
    case None
    then show ?thesis by (simp add: exec_all.simps [of r prev t])
  next
    case (Some found)
    obtain start st where found: "found = (start, st)" by (cases found)
    from Some found have "search_from r prev t = Some (start, st)" by simp
    from search_from_consumes [OF this "1.prems"]
    have less: "length (rest_of st) < length t" .
    from "1.IH" [OF Some found [symmetric] less "1.prems"]
    obtain ms where "exec_all r (prev_of st) (rest_of st) = Some ms" by blast
    with Some found less show ?thesis by (simp add: exec_all.simps [of r prev t])
  qed
qed

section \<open>The parser returns for every instruction text\<close>

lemma run_patterns_returns:
  assumes "\<forall>r \<in> set rs. consumes r"
  shows "\<exists>res. run_patterns add rs s acc = Some res"
  using assms
proof (induction rs arbitrary: acc)
  case Nil
  show ?case by simp
next
  case (Cons r rs)
  then have "consumes r" by simp
  from exec_all_returns [OF this] obtain ms where "exec_all r None s = Some ms" by blast
  moreover from Cons obtain res where "run_patterns add rs s (foldl add acc ms) = Some res"
    by fastforce
  ultimately show ?case by simp
qed

lemma consumes_lit: "consumes (lit (c # cs))"
  by (simp add: lit_def ci_def)

lemma consumes_patterns:
  "\<forall>r \<in> set romanChapterPatterns. consumes r"
  "\<forall>r \<in> set chapterPatterns. consumes r"
  "\<forall>r \<in> set sectionPatterns. consumes r"
  "consumes abbreviationPattern"
  "consumes chapterNoWordPattern"
  by (simp_all add: romanChapterPatterns_def chapterPatterns_def sectionPatterns_def
      abbreviationPattern_def chapterNoWordPattern_def seqs_def alts_def plus_re_def
      plus_lazy_def chapter_or_section_def chapter_word_def digits1_def section_title_def
      consumes_lit ci_def)

lemma parse_structure_returns: "\<exists>st. parse_structure s = Some st"
proof -
  obtain s1 where 1: "run_patterns add_roman romanChapterPatterns s [] = Some s1"
    using run_patterns_returns [OF consumes_patterns(1)] by blast
  obtain s2 where 2: "run_patterns add_chapter chapterPatterns s s1 = Some s2"
    using run_patterns_returns [OF consumes_patterns(2)] by blast
  obtain s3 where 3: "run_patterns add_named sectionPatterns s s2 = Some s3"
    using run_patterns_returns [OF consumes_patterns(3)] by blast
  have "\<forall>r \<in> set [abbreviationPattern]. consumes r"
    using consumes_patterns(4) by simp
  from run_patterns_returns [OF this]
  obtain s4 where 4: "run_patterns add_abbreviation [abbreviationPattern] s s3 = Some s4"
    by blast
  have "\<forall>r \<in> set [chapterNoWordPattern]. consumes r"
    using consumes_patterns(5) by simp
  from run_patterns_returns [OF this]
  obtain s5 where 5: "run_patterns add_chapterNoWord [chapterNoWordPattern] s s4 = Some s5"
    by blast
  show ?thesis
    unfolding parse_structure_def by (simp only: 1 2 3 4 5 Option.bind.simps) simp
qed

lemma run_matchers_returns: "\<exists>res. run_matchers s = Some res"
  using parse_structure_returns [of s] by (auto simp: run_matchers_def)

section \<open>Properties of the parse cache\<close>

lemma parse_with_hit:
  "parseCache h s = Some r \<Longrightarrow> parse_with matchers s h = Some (r, h)"
  by (simp add: parse_with_def)

lemma parse_with_caches:
  assumes "parse_with matchers s h = Some (r, h1)"
  shows "parseCache h1 s = Some r"
  using assms by (auto simp: parse_with_def split: option.splits)

lemma parse_with_keeps:
  assumes "parse_with matchers s' h = Some (r', h')" and "parseCache h s = Some r"
  shows "parseCache h' s = Some r"
  using assms by (auto simp: parse_with_def split: option.splits)

lemma build_structure_keeps_cache:
  "parseCache (snd (build_structure target r h)) = parseCache h"
  by (simp add: build_structure_def Let_def)

text \<open>
  C6. For every instruction text and every state of the cache the parser returns a
  reference; a second call with the same text returns the same reference and leaves the
  state as it is, whatever the matchers would compute (they are not run); and the entry
  stays in the cache through any later parse and through the structure building of
  \<^verbatim>\<open>universalExpand\<close>, so every later call returns that reference too.
\<close>

theorem parse_twice_reference_equal:
  "(\<exists>r h1. parseExpansionInstructions s h = Some (r, h1))
   \<and> (parseExpansionInstructions s h = Some (r, h1) \<longrightarrow>
        parse_with matchers s h1 = Some (r, h1)
        \<and> (\<forall>s' r' h2. parse_with matchers s' h1 = Some (r', h2) \<longrightarrow>
              parse_with matchers s h2 = Some (r, h2))
        \<and> parse_with matchers s (snd (build_structure target r h1))
            = Some (r, snd (build_structure target r h1)))"
proof (intro conjI impI allI)
  show "\<exists>r h1. parseExpansionInstructions s h = Some (r, h1)"
    using run_matchers_returns [of s]
    by (auto simp: parseExpansionInstructions_def parse_with_def split: option.splits)
next
  assume a: "parseExpansionInstructions s h = Some (r, h1)"
  then have c: "parseCache h1 s = Some r"
    unfolding parseExpansionInstructions_def by (rule parse_with_caches)
  then show "parse_with matchers s h1 = Some (r, h1)"
    by (rule parse_with_hit)
  show "parse_with matchers s (snd (build_structure target r h1))
            = Some (r, snd (build_structure target r h1))"
    using c by (intro parse_with_hit) (simp add: build_structure_keeps_cache)
  fix s' r' h2
  assume "parse_with matchers s' h1 = Some (r', h2)"
  from parse_with_keeps [OF this c] show "parse_with matchers s h2 = Some (r, h2)"
    by (rule parse_with_hit)
qed

lemma run_matchers_chapter_only:
  "run_matchers chapter_only
   = Some \<lparr>targetWordCount = None,
           structure = [\<lparr>name = ''CHAPTER 1: Intro'', wordCount = Num 0\<rparr>]\<rparr>"
  by code_simp

lemma parse_chapter_only:
  "parseExpansionInstructions chapter_only empty_heap = Some (0, heap_after_parse)"
  by (simp add: parseExpansionInstructions_def parse_with_def empty_heap_def
      run_matchers_chapter_only heap_after_parse_def)

theorem parse_twice_reference_equal_witness:
  "parseExpansionInstructions chapter_only empty_heap = Some (0, heap_after_parse)
   \<and> parse_with (\<lambda>s. None) chapter_only heap_after_parse = Some (0, heap_after_parse)"
  using parse_twice_reference_equal [of chapter_only empty_heap 0 heap_after_parse "\<lambda>s. None"]
  by (simp add: parse_chapter_only)

lemma round_thousand: "Math_round 1000 = 1000"
  by (simp add: Math_round_def floor_eq_iff)

text \<open>
  C7, at a failing input. The instructions name one chapter without a word count, and the
  request asks for 1000 words. The first parse returns a structure whose only count is 0.
  Building the structure distributes the 1000 words by assigning to that entry, which
  belongs to the cached object; the next parse of the same instructions returns the same
  object and now reads the count 1000.
\<close>

theorem cached_structure_is_mutated:
  "parseExpansionInstructions chapter_only empty_heap = Some (0, heap_after_parse)
   \<and> structure (deref heap_after_parse 0) = [\<lparr>name = ''CHAPTER 1: Intro'', wordCount = Num 0\<rparr>]
   \<and> universalExpand_structure chapter_only (Some (Num 1000)) 200 empty_heap
       = Some ((1000, [\<lparr>name = ''CHAPTER 1: Intro'', wordCount = Num 1000\<rparr>]), heap_after_expand)
   \<and> parseExpansionInstructions chapter_only heap_after_expand = Some (0, heap_after_expand)
   \<and> structure (deref heap_after_expand 0)
       = [\<lparr>name = ''CHAPTER 1: Intro'', wordCount = Num 1000\<rparr>]"
proof (intro conjI)
  show "parseExpansionInstructions chapter_only empty_heap = Some (0, heap_after_parse)"
    by (rule parse_chapter_only)
  show "structure (deref heap_after_parse 0) = [\<lparr>name = ''CHAPTER 1: Intro'', wordCount = Num 0\<rparr>]"
    by (simp add: deref_def heap_after_parse_def)
  show "structure (deref heap_after_expand 0)
       = [\<lparr>name = ''CHAPTER 1: Intro'', wordCount = Num 1000\<rparr>]"
    by (simp add: deref_def heap_after_expand_def)
  show "parseExpansionInstructions chapter_only heap_after_expand = Some (0, heap_after_expand)"
    by (simp add: parseExpansionInstructions_def parse_with_def heap_after_expand_def)
  have t: "resolve_target None (Some (Num 1000)) 200 = 1000"
    by (simp add: resolve_target_def truthy_def)
  have d: "distribute 1000 [\<lparr>name = ''CHAPTER 1: Intro'', wordCount = Num 0\<rparr>]
           = [\<lparr>name = ''CHAPTER 1: Intro'', wordCount = Num 1000\<rparr>]"
    by (simp add: distribute_def sum_counts_def Let_def round_thousand)
  have b: "build_structure 1000 0 heap_after_parse
           = ([\<lparr>name = ''CHAPTER 1: Intro'', wordCount = Num 1000\<rparr>], heap_after_expand)"
    by (simp add: build_structure_def deref_def heap_after_parse_def heap_after_expand_def
        Let_def d)
  show "universalExpand_structure chapter_only (Some (Num 1000)) 200 empty_heap
       = Some ((1000, [\<lparr>name = ''CHAPTER 1: Intro'', wordCount = Num 1000\<rparr>]), heap_after_expand)"
    by (simp add: universalExpand_structure_def parse_chapter_only Let_def)
       (simp add: deref_def heap_after_parse_def t b [unfolded heap_after_parse_def])
qed

section \<open>Properties of the repair step\<close>











lemma locate_unnamed: "locate_section two_sections two_texts repair_unnamed = Some 1"
  by (simp add: locate_section_def two_sections_def two_texts_def repair_unnamed_def startsWith_def)







section \<open>The parser and the cleaner on concrete texts\<close>

lemma parse_structure_roman_chapter:
  "parse_structure roman_chapter
   = Some [\<lparr>name = ''CHAPTER 4: Methods'', wordCount = Num 2000\<rparr>]"
  by code_simp

lemma parse_target_roman_chapter: "parse_target roman_chapter = None"
  by code_simp

lemma romanToArabic_IV: "romanToArabic ''IV'' = ''4''"
  by code_simp

text \<open>
  C10. Parsing \<open>CHAPTER IV: Methods (2,000 words)\<close> gives a structure of exactly one
  section, named \<open>CHAPTER 4: Methods\<close> with 2000 words: the numeral \<open>IV\<close> becomes
  \<open>4\<close>, and the candidates of the other patterns are not added. This is what the first
  call of the parser stores and returns.
\<close>

theorem roman_chapter_parsed:
  "run_matchers roman_chapter
     = Some \<lparr>targetWordCount = None,
             structure = [\<lparr>name = ''CHAPTER 4: Methods'', wordCount = Num 2000\<rparr>]\<rparr>
   \<and> romanToArabic ''IV'' = ''4''
   \<and> map_option (\<lambda>(r, h). structure (deref h r)) (parseExpansionInstructions roman_chapter empty_heap)
       = Some [\<lparr>name = ''CHAPTER 4: Methods'', wordCount = Num 2000\<rparr>]"
proof -
  have ne: "roman_chapter \<noteq> []" by (simp add: roman_chapter_def)
  have r: "run_matchers roman_chapter
     = Some \<lparr>targetWordCount = None,
             structure = [\<lparr>name = ''CHAPTER 4: Methods'', wordCount = Num 2000\<rparr>]\<rparr>"
    by (simp add: run_matchers_def ne parse_structure_roman_chapter parse_target_roman_chapter)
  show ?thesis
    by (simp add: r romanToArabic_IV parseExpansionInstructions_def parse_with_def
        empty_heap_def deref_def)
qed




section \<open>Following the match of an EXPAND TO clause\<close>

















































end
